theory Spec2Isabelle
  imports Main
begin

section \<open>Build-time probing and orchestration of \<^verbatim>\<open>setup.py\<close>\<close>

text \<open>
  The script probes the toolchain by trial compilation, optionally builds a TensorFlow
  plugin, and then builds the core library and the numpy wrapper. Everything it decides
  depends on the outcome of calls that leave the script (the compiler, the imports of
  \<^verbatim>\<open>tensorflow\<close> and \<^verbatim>\<open>numpy\<close>, the process environment). These are
  collected in a record \<open>world\<close>; each is a function of the arguments of the call. What
  the script does to the outside is recorded, in order, in a list of events that every
  function takes and returns. A Python exception is the \<open>Inl\<close> of a sum.
\<close>

subsection \<open>Exceptions\<close>

text \<open>
  The handlers of the script tell five classes apart. \<open>OtherException\<close> stands for every
  other class below \<^verbatim>\<open>Exception\<close>, \<open>NonException\<close> for a class below
  \<^verbatim>\<open>BaseException\<close> only (\<^verbatim>\<open>KeyboardInterrupt\<close>, \<^verbatim>\<open>SystemExit\<close>),
  which \<^verbatim>\<open>except Exception\<close> lets through and a bare \<^verbatim>\<open>except\<close> catches.
  \<^verbatim>\<open>DistutilsPlatformError\<close> carries the argument it is raised with, which is
  \<^verbatim>\<open>None\<close> when no reason has been recorded.
\<close>

datatype exn =
    CompileError string
  | LinkError string
  | DistutilsPlatformError "string option"
  | ImportError string
  | AttributeError string
  | OtherException string
  | NonException string

text \<open>\<^verbatim>\<open>except (CompileError, LinkError)\<close>\<close>

fun is_compile_or_link_error :: "exn \<Rightarrow> bool" where
  "is_compile_or_link_error (CompileError m) = True"
| "is_compile_or_link_error (LinkError m) = True"
| "is_compile_or_link_error e = False"

text \<open>\<^verbatim>\<open>except Exception\<close>\<close>

fun is_Exception :: "exn \<Rightarrow> bool" where
  "is_Exception (NonException m) = False"
| "is_Exception e = True"

subsection \<open>Strings\<close>

text \<open>
  Python compares strings lexicographically by code point; a proper prefix is smaller.
\<close>

fun str_lt :: "string \<Rightarrow> string \<Rightarrow> bool" where
  "str_lt [] [] = False"
| "str_lt [] (y # ys) = True"
| "str_lt (x # xs) [] = False"
| "str_lt (x # xs) (y # ys) =
     (if (of_char x :: nat) < of_char y then True
      else if (of_char y :: nat) < of_char x then False
      else str_lt xs ys)"

fun starts_with :: "string \<Rightarrow> string \<Rightarrow> bool" where
  "starts_with [] t = True"
| "starts_with (a # s) [] = False"
| "starts_with (a # s) (b # t) = (a = b \<and> starts_with s t)"

text \<open>The operator \<^verbatim>\<open>s in t\<close> on strings: \<open>s\<close> occurs in \<open>t\<close> as a substring.\<close>

fun str_in :: "string \<Rightarrow> string \<Rightarrow> bool" where
  "str_in s [] = (s = [])"
| "str_in s (b # t) = (starts_with s (b # t) \<or> str_in s t)"

text \<open>
  \<^verbatim>\<open>os.path.join\<close> of two components, as \<^verbatim>\<open>posixpath\<close> defines it: an absolute
  second component replaces the first, otherwise the two are joined by one slash unless
  the first is empty or ends with one.
\<close>

definition os_path_join :: "string \<Rightarrow> string \<Rightarrow> string" where
  "os_path_join a b =
     (if starts_with ''/'' b then b
      else if a = [] \<or> last a = CHR ''/'' then a @ b
      else a @ ''/'' @ b)"

text \<open>Truth value of \<^verbatim>\<open>os.environ.get(k)\<close>: unset and the empty string are both false.\<close>

definition env_true :: "(string \<rightharpoonup> string) \<Rightarrow> string \<Rightarrow> bool" where
  "env_true env k = (case env k of None \<Rightarrow> False | Some v \<Rightarrow> v \<noteq> [])"

subsection \<open>Extensions, build options and the outside world\<close>

text \<open>An \<^verbatim>\<open>Extension\<close> object with the attributes the script assigns.\<close>

record extension =
  ext_name :: string
  define_macros :: "(string \<times> string) list"
  include_dirs :: "string list"
  sources :: "string list"
  extra_compile_args :: "string list"
  extra_link_args :: "string list"
  library_dirs :: "string list"
  libraries :: "string list"

text \<open>\<^verbatim>\<open>Extension(name, [])\<close>\<close>

definition Extension :: "string \<Rightarrow> extension" where
  "Extension n = \<lparr>ext_name = n, define_macros = [], include_dirs = [], sources = [],
     extra_compile_args = [], extra_link_args = [], library_dirs = [], libraries = []\<rparr>"

definition common_lib :: extension where
  "common_lib = Extension ''jpeg2dct.common.common_lib''"

definition numpy_lib :: extension where
  "numpy_lib = Extension ''jpeg2dct.numpy._dctfromjpg_wrapper''"

definition tf_lib :: extension where
  "tf_lib = Extension ''jpeg2dct.tensorflow.tf_lib''"

text \<open>The dictionary returned by \<^verbatim>\<open>get_common_options\<close>.\<close>

record options =
  MACROS :: "(string \<times> string) list"
  INCLUDES :: "string list"
  SOURCES :: "string list"
  COMPILE_FLAGS :: "string list"
  LINK_FLAGS :: "string list"
  LIBRARY_DIRS :: "string list"
  LIBRARIES :: "string list"

text \<open>
  The imported \<^verbatim>\<open>tensorflow\<close> module: \<open>tf_version\<close> is \<^verbatim>\<open>tf.__version__\<close>
  (\<open>None\<close> when the attribute is missing), the other fields are the results of the calls
  \<^verbatim>\<open>tf.sysconfig.get_compile_flags()\<close>, \<^verbatim>\<open>get_link_flags()\<close>,
  \<^verbatim>\<open>get_include()\<close> and \<^verbatim>\<open>get_lib()\<close>; an old TensorFlow without the first two
  answers \<open>Inl (AttributeError _)\<close>.
\<close>

record tf_module =
  tf_version :: "string option"
  get_compile_flags :: "exn + string list"
  get_link_flags :: "exn + string list"
  get_include :: "exn + string"
  get_lib :: "exn + string"

text \<open>
  The outside world. \<open>write_source\<close> stands for lines 168 to 174 of the script (creating
  the directory and writing the file), \<open>cc_compile\<close> and \<open>cc_link\<close> for the two compiler
  calls of \<^verbatim>\<open>test_compile\<close> (\<open>cc_compile\<close> also sees the text of the file it compiles),
  \<open>load_op_library\<close> for the import of \<^verbatim>\<open>load_library\<close> followed by
  \<^verbatim>\<open>load_library.load_op_library(lib_file)\<close>, \<open>import_numpy\<close> for
  \<^verbatim>\<open>import numpy\<close>, \<open>numpy_get_include\<close> for \<^verbatim>\<open>numpy.get_include()\<close>,
  \<open>build_extension\<close> for \<^verbatim>\<open>build_ext.build_extension(ext)\<close> and \<open>format_exc\<close> for
  \<^verbatim>\<open>traceback.format_exc()\<close> inside the handler of the given exception.
\<close>

record world =
  platform :: string
  environ :: "string \<rightharpoonup> string"
  build_temp :: string
  format_exc :: "exn \<Rightarrow> string"
  write_source :: "string \<Rightarrow> string \<Rightarrow> exn option"
  object_filename :: "string \<Rightarrow> string"
  shared_object_filename :: "string \<Rightarrow> string \<Rightarrow> string"
  cc_compile :: "string \<Rightarrow> string \<Rightarrow> string list option \<Rightarrow> string list option
                  \<Rightarrow> (string \<times> string) list option \<Rightarrow> exn option"
  cc_link :: "string \<Rightarrow> string \<Rightarrow> string list option \<Rightarrow> string list option \<Rightarrow> exn option"
  import_tensorflow :: "exn + tf_module"
  load_op_library :: "string \<Rightarrow> exn option"
  import_numpy :: "exn option"
  numpy_get_include :: "exn + string"
  build_extension :: "extension \<Rightarrow> exn option"

text \<open>
  What the script does, in order. \<open>TestCompile\<close> records a call of
  \<^verbatim>\<open>test_compile\<close> with its arguments \<open>name\<close>, \<open>libraries\<close>, \<open>include_dirs\<close>,
  \<open>library_dirs\<close>, \<open>macros\<close> and \<open>extra_preargs\<close> (\<open>None\<close> for an argument left at its
  default).
\<close>

datatype event =
    TestCompile string "string list option" "string list option" "string list option"
      "(string \<times> string) list option" "string list option"
  | LoadOpLibrary string
  | ImportTensorflow
  | ImportNumpy
  | BuildExtension extension
  | Print string

type_synonym 'a result = "(exn + 'a) \<times> event list"

subsection \<open>\<^verbatim>\<open>check_tf_version\<close>\<close>

text \<open>
  The \<^verbatim>\<open>try\<close> block holds the import and the comparison; \<^verbatim>\<open>ImportError\<close> and
  \<^verbatim>\<open>AttributeError\<close> are caught wherever in the block they come from, any other
  exception of the import leaves the function as it is.
\<close>

definition check_tf_version :: "world \<Rightarrow> event list \<Rightarrow> unit result" where
  "check_tf_version w log =
     (let log1 = log @ [ImportTensorflow] in
      case import_tensorflow w of
        Inl (ImportError m) \<Rightarrow>
          (Inl (DistutilsPlatformError (Some
             (''import tensorflow failed, is it installed?'' @ [CHR 0x0A, CHR 0x0A]
                @ format_exc w (ImportError m)))), log1)
      | Inl (AttributeError m) \<Rightarrow>
          (Inl (DistutilsPlatformError (Some
             ''Your TensorFlow version is outdated.  Horovod requires tensorflow>=1.1.0'')), log1)
      | Inl e \<Rightarrow> (Inl e, log1)
      | Inr tf \<Rightarrow>
          (case tf_version tf of
             None \<Rightarrow>
               (Inl (DistutilsPlatformError (Some
                  ''Your TensorFlow version is outdated.  Horovod requires tensorflow>=1.1.0'')), log1)
           | Some v \<Rightarrow>
               if str_lt v ''1.1.0'' then
                 (Inl (DistutilsPlatformError (Some
                    (''Your TensorFlow version '' @ v @ '' is outdated.  ''
                       @ ''Horovod requires tensorflow>=1.1.0''))), log1)
               else (Inr (), log1)))"

subsection \<open>\<^verbatim>\<open>get_conda_include_dir\<close>\<close>

definition get_conda_include_dir :: "world \<Rightarrow> string list" where
  "get_conda_include_dir w =
     (let prefix = (case environ w ''CONDA_PREFIX'' of None \<Rightarrow> ''.'' | Some p \<Rightarrow> p)
      in [os_path_join prefix ''include''])"

subsection \<open>\<^verbatim>\<open>test_compile\<close>\<close>

definition nl :: string where
  "nl = [CHR 0x0A]"

definition dq :: string where
  "dq = [CHR 0x22]"

text \<open>
  The call is recorded on entry. The source file is written, compiled and linked; the
  first of the three steps that raises ends the call with its exception.
\<close>

definition test_compile ::
  "world \<Rightarrow> string \<Rightarrow> string \<Rightarrow> string list option \<Rightarrow> string list option \<Rightarrow> string list option
     \<Rightarrow> (string \<times> string) list option \<Rightarrow> string list option \<Rightarrow> event list \<Rightarrow> string result" where
  "test_compile w name code libraries' include_dirs' library_dirs' macros extra_preargs log =
     (let log1 = log @ [TestCompile name libraries' include_dirs' library_dirs' macros extra_preargs];
          test_compile_dir = os_path_join (build_temp w) ''test_compile'';
          source_file = os_path_join test_compile_dir (name @ ''.cc'')
      in case write_source w source_file code of
           Some e \<Rightarrow> (Inl e, log1)
         | None \<Rightarrow>
             (let object_file = object_filename w source_file;
                  shared_object_file = shared_object_filename w name test_compile_dir
              in case cc_compile w source_file code extra_preargs include_dirs' macros of
                   Some e \<Rightarrow> (Inl e, log1)
                 | None \<Rightarrow>
                     (case cc_link w object_file shared_object_file libraries' library_dirs' of
                        Some e \<Rightarrow> (Inl e, log1)
                      | None \<Rightarrow> (Inr shared_object_file, log1))))"

subsection \<open>The candidate loop\<close>

text \<open>
  \<^verbatim>\<open>get_cpp_flags\<close>, \<^verbatim>\<open>get_tf_libs\<close> and \<^verbatim>\<open>get_tf_abi\<close> are the same loop
  over different candidates:
  \<^verbatim>\<open>
    last_err = None
    for c in candidates:
        try:
            ...                      # the attempt
            return ...
        except (CompileError, LinkError):
            last_err = msg_cl
        except Exception:
            last_err = msg_exc % traceback.format_exc()
    raise DistutilsPlatformError(last_err)
  \<close>
  \<open>probe_loop\<close> is that loop, with the body of the \<^verbatim>\<open>try\<close> as the parameter
  \<open>attempt\<close>. Both handlers fall through to the next iteration; an exception that is not
  an \<^verbatim>\<open>Exception\<close> is caught by neither and leaves the loop.
\<close>

fun probe_loop ::
  "world \<Rightarrow> string \<Rightarrow> string \<Rightarrow> ('c \<Rightarrow> event list \<Rightarrow> 'r result) \<Rightarrow> 'c list \<Rightarrow> string option
     \<Rightarrow> event list \<Rightarrow> 'r result" where
  "probe_loop w msg_cl msg_exc attempt [] last_err log =
     (Inl (DistutilsPlatformError last_err), log)"
| "probe_loop w msg_cl msg_exc attempt (c # cs) last_err log =
     (case attempt c log of
        (Inr r, log1) \<Rightarrow> (Inr r, log1)
      | (Inl e, log1) \<Rightarrow>
          if is_compile_or_link_error e then
            probe_loop w msg_cl msg_exc attempt cs (Some msg_cl) log1
          else if is_Exception e then
            probe_loop w msg_cl msg_exc attempt cs (Some (msg_exc @ format_exc w e)) log1
          else (Inl e, log1))"

subsection \<open>\<^verbatim>\<open>get_cpp_flags\<close>\<close>

definition default_flags :: "string list" where
  "default_flags = [''-std=c++11'', ''-fPIC'', ''-O2'']"

definition flags_to_try :: "world \<Rightarrow> string list list" where
  "flags_to_try w =
     (if platform w = ''darwin'' then [default_flags @ [''-stdlib=libc++''], default_flags]
      else [default_flags, default_flags @ [''-stdlib=libc++'']])"

definition cpp_flags_code :: string where
  "cpp_flags_code =
     ''#include <unordered_map>'' @ nl @ ''void test() {'' @ nl @ ''}'' @ nl"

definition cpp_msg_cl :: string where
  "cpp_msg_cl = ''Unable to determine C++ compilation flags (see error above).''"

definition cpp_msg_exc :: string where
  "cpp_msg_exc = ''Unable to determine C++ compilation flags.  Last error:'' @ nl @ nl"

definition try_cpp_flags :: "world \<Rightarrow> string list \<Rightarrow> event list \<Rightarrow> string list result" where
  "try_cpp_flags w cpp_flags log =
     (case test_compile w ''test_cpp_flags'' cpp_flags_code None None None None
             (Some cpp_flags) log of
        (Inl e, log1) \<Rightarrow> (Inl e, log1)
      | (Inr lib_file, log1) \<Rightarrow> (Inr cpp_flags, log1))"

definition get_cpp_flags :: "world \<Rightarrow> event list \<Rightarrow> string list result" where
  "get_cpp_flags w log =
     probe_loop w cpp_msg_cl cpp_msg_exc (try_cpp_flags w) (flags_to_try w) None log"

subsection \<open>The fallback discovery of the TensorFlow flags\<close>

definition get_tf_include_dirs :: "world \<Rightarrow> event list \<Rightarrow> string list result" where
  "get_tf_include_dirs w log =
     (let log1 = log @ [ImportTensorflow] in
      case import_tensorflow w of
        Inl e \<Rightarrow> (Inl e, log1)
      | Inr tf \<Rightarrow>
          (case get_include tf of
             Inl e \<Rightarrow> (Inl e, log1)
           | Inr tf_inc \<Rightarrow> (Inr [tf_inc, tf_inc @ ''/external/nsync/public''], log1)))"

definition get_tf_lib_dirs :: "world \<Rightarrow> event list \<Rightarrow> string list result" where
  "get_tf_lib_dirs w log =
     (let log1 = log @ [ImportTensorflow] in
      case import_tensorflow w of
        Inl e \<Rightarrow> (Inl e, log1)
      | Inr tf \<Rightarrow>
          (case get_lib tf of
             Inl e \<Rightarrow> (Inl e, log1)
           | Inr tf_lib_dir \<Rightarrow> (Inr [tf_lib_dir], log1)))"

definition tf_libs_code :: string where
  "tf_libs_code = ''void test() {'' @ nl @ ''}'' @ nl"

definition tf_libs_msg_cl :: string where
  "tf_libs_msg_cl =
     ''Unable to determine -l link flags to use with TensorFlow (see error above).''"

definition tf_libs_msg_exc :: string where
  "tf_libs_msg_exc =
     ''Unable to determine -l link flags to use with TensorFlow.  Last error:'' @ nl @ nl"

definition tf_libs_to_try :: "string list list" where
  "tf_libs_to_try = [[''tensorflow_framework''], []]"

definition try_tf_libs ::
  "world \<Rightarrow> string list \<Rightarrow> string list \<Rightarrow> string list \<Rightarrow> event list \<Rightarrow> string list result" where
  "try_tf_libs w lib_dirs cpp_flags tf_libs log =
     (case test_compile w ''test_tensorflow_libs'' tf_libs_code (Some tf_libs) None
             (Some lib_dirs) None (Some cpp_flags) log of
        (Inl e, log1) \<Rightarrow> (Inl e, log1)
      | (Inr lib_file, log1) \<Rightarrow>
          (case load_op_library w lib_file of
             Some e \<Rightarrow> (Inl e, log1 @ [LoadOpLibrary lib_file])
           | None \<Rightarrow> (Inr tf_libs, log1 @ [LoadOpLibrary lib_file])))"

definition get_tf_libs ::
  "world \<Rightarrow> string list \<Rightarrow> string list \<Rightarrow> event list \<Rightarrow> string list result" where
  "get_tf_libs w lib_dirs cpp_flags log =
     probe_loop w tf_libs_msg_cl tf_libs_msg_exc (try_tf_libs w lib_dirs cpp_flags)
       tf_libs_to_try None log"

definition cxx11_abi_macro :: string where
  "cxx11_abi_macro = ''_GLIBCXX_USE_CXX11_ABI''"

definition tf_abi_code :: string where
  "tf_abi_code =
     ''#include <string>'' @ nl
     @ ''#include '' @ dq @ ''tensorflow/core/framework/op.h'' @ dq @ nl
     @ ''#include '' @ dq @ ''tensorflow/core/framework/op_kernel.h'' @ dq @ nl
     @ ''#include '' @ dq @ ''tensorflow/core/framework/shape_inference.h'' @ dq @ nl
     @ ''void test() {'' @ nl
     @ ''    auto ignore = tensorflow::strings::StrCat('' @ dq @ ''a'' @ dq @ '', ''
     @ dq @ ''b'' @ dq @ '');'' @ nl
     @ ''}'' @ nl"

definition tf_abi_msg_cl :: string where
  "tf_abi_msg_cl = ''Unable to determine CXX11 ABI to use with TensorFlow (see error above).''"

definition tf_abi_msg_exc :: string where
  "tf_abi_msg_exc =
     ''Unable to determine CXX11 ABI to use with TensorFlow.  Last error:'' @ nl @ nl"

definition tf_abi_to_try :: "string list" where
  "tf_abi_to_try = [''0'', ''1'']"

definition try_tf_abi ::
  "world \<Rightarrow> string list \<Rightarrow> string list \<Rightarrow> string list \<Rightarrow> string list \<Rightarrow> string \<Rightarrow> event list
     \<Rightarrow> (string \<times> string) result" where
  "try_tf_abi w include_dirs' lib_dirs libs cpp_flags cxx11_abi log =
     (case test_compile w ''test_tensorflow_abi'' tf_abi_code (Some libs) (Some include_dirs')
             (Some lib_dirs) (Some [(cxx11_abi_macro, cxx11_abi)]) (Some cpp_flags) log of
        (Inl e, log1) \<Rightarrow> (Inl e, log1)
      | (Inr lib_file, log1) \<Rightarrow>
          (case load_op_library w lib_file of
             Some e \<Rightarrow> (Inl e, log1 @ [LoadOpLibrary lib_file])
           | None \<Rightarrow> (Inr (cxx11_abi_macro, cxx11_abi), log1 @ [LoadOpLibrary lib_file])))"

definition get_tf_abi ::
  "world \<Rightarrow> string list \<Rightarrow> string list \<Rightarrow> string list \<Rightarrow> string list \<Rightarrow> event list
     \<Rightarrow> (string \<times> string) result" where
  "get_tf_abi w include_dirs' lib_dirs libs cpp_flags log =
     probe_loop w tf_abi_msg_cl tf_abi_msg_exc
       (try_tf_abi w include_dirs' lib_dirs libs cpp_flags) tf_abi_to_try None log"

text \<open>The body of the \<^verbatim>\<open>except AttributeError\<close> handler of \<^verbatim>\<open>get_tf_flags\<close>.\<close>

definition get_tf_flags_fallback ::
  "world \<Rightarrow> string list \<Rightarrow> event list \<Rightarrow> (string list \<times> string list) result" where
  "get_tf_flags_fallback w cpp_flags log =
     (case get_tf_include_dirs w log of
        (Inl e, log1) \<Rightarrow> (Inl e, log1)
      | (Inr tf_include_dirs, log1) \<Rightarrow>
     (case get_tf_lib_dirs w log1 of
        (Inl e, log2) \<Rightarrow> (Inl e, log2)
      | (Inr tf_lib_dirs, log2) \<Rightarrow>
     (case get_tf_libs w tf_lib_dirs cpp_flags log2 of
        (Inl e, log3) \<Rightarrow> (Inl e, log3)
      | (Inr tf_libs, log3) \<Rightarrow>
     (case get_tf_abi w tf_include_dirs tf_lib_dirs tf_libs cpp_flags log3 of
        (Inl e, log4) \<Rightarrow> (Inl e, log4)
      | (Inr (macro, val), log4) \<Rightarrow>
          (let compile_flags = map (\<lambda>include_dir. ''-I'' @ include_dir) tf_include_dirs
                 @ [''-D'' @ macro @ ''='' @ val];
               link_flags = map (\<lambda>lib_dir. ''-L'' @ lib_dir) tf_lib_dirs
                 @ map (\<lambda>lib. ''-l'' @ lib) tf_libs
           in (Inr (compile_flags, link_flags), log4))))))"

definition get_tf_flags ::
  "world \<Rightarrow> string list \<Rightarrow> event list \<Rightarrow> (string list \<times> string list) result" where
  "get_tf_flags w cpp_flags log =
     (let log1 = log @ [ImportTensorflow] in
      case import_tensorflow w of
        Inl e \<Rightarrow> (Inl e, log1)
      | Inr tf \<Rightarrow>
          (case get_compile_flags tf of
             Inl (AttributeError m) \<Rightarrow> get_tf_flags_fallback w cpp_flags log1
           | Inl e \<Rightarrow> (Inl e, log1)
           | Inr tf_compile_flags \<Rightarrow>
               (case get_link_flags tf of
                  Inl (AttributeError m) \<Rightarrow> get_tf_flags_fallback w cpp_flags log1
                | Inl e \<Rightarrow> (Inl e, log1)
                | Inr tf_link_flags \<Rightarrow> (Inr (tf_compile_flags, tf_link_flags), log1))))"

subsection \<open>Baseline options and the three builds\<close>

definition get_common_options :: "world \<Rightarrow> event list \<Rightarrow> options result" where
  "get_common_options w log =
     (case get_cpp_flags w log of
        (Inl e, log1) \<Rightarrow> (Inl e, log1)
      | (Inr cpp_flags, log1) \<Rightarrow>
          (Inr \<lparr>MACROS = [], INCLUDES = [] @ get_conda_include_dir w, SOURCES = [],
                COMPILE_FLAGS = cpp_flags, LINK_FLAGS = [], LIBRARY_DIRS = [],
                LIBRARIES = []\<rparr>, log1))"

text \<open>The extension object as it is when \<^verbatim>\<open>build_ext.build_extension\<close> receives it.\<close>

definition common_extension :: "options \<Rightarrow> string list \<Rightarrow> extension" where
  "common_extension opts abi_compile_flags =
     common_lib\<lparr>define_macros := MACROS opts, include_dirs := INCLUDES opts,
       sources := SOURCES opts @ [''jpeg2dct/common/dctfromjpg.cc''],
       extra_compile_args := COMPILE_FLAGS opts @ abi_compile_flags,
       extra_link_args := LINK_FLAGS opts, library_dirs := LIBRARY_DIRS opts,
       libraries := LIBRARIES opts @ [''jpeg'']\<rparr>"

definition build_common_extension ::
  "world \<Rightarrow> options \<Rightarrow> string list \<Rightarrow> event list \<Rightarrow> unit result" where
  "build_common_extension w opts abi_compile_flags log =
     (let ext = common_extension opts abi_compile_flags;
          log1 = log @ [BuildExtension ext]
      in case build_extension w ext of
           Some e \<Rightarrow> (Inl e, log1)
         | None \<Rightarrow> (Inr (), log1))"

definition numpy_extension :: "options \<Rightarrow> string list \<Rightarrow> string \<Rightarrow> extension" where
  "numpy_extension opts abi_compile_flags numpy_include =
     numpy_lib\<lparr>define_macros := MACROS opts, include_dirs := INCLUDES opts @ [numpy_include],
       sources := SOURCES opts @ [''jpeg2dct/numpy/dctfromjpg_wrap.cc''],
       extra_compile_args := COMPILE_FLAGS opts @ abi_compile_flags,
       extra_link_args := LINK_FLAGS opts, library_dirs := LIBRARY_DIRS opts,
       libraries := LIBRARIES opts\<rparr>"

definition build_numpy_extension ::
  "world \<Rightarrow> options \<Rightarrow> string list \<Rightarrow> event list \<Rightarrow> unit result" where
  "build_numpy_extension w opts abi_compile_flags log =
     (let log1 = log @ [ImportNumpy] in
      case import_numpy w of
        Some e \<Rightarrow> (Inl e, log1)
      | None \<Rightarrow>
          (case numpy_get_include w of
             Inl e \<Rightarrow> (Inl e, log1)
           | Inr numpy_include \<Rightarrow>
               (let ext = numpy_extension opts abi_compile_flags numpy_include;
                    log2 = log1 @ [BuildExtension ext]
                in case build_extension w ext of
                     Some e \<Rightarrow> (Inl e, log2)
                   | None \<Rightarrow> (Inr (), log2))))"

definition tf_extension :: "options \<Rightarrow> string list \<Rightarrow> string list \<Rightarrow> extension" where
  "tf_extension opts tf_compile_flags tf_link_flags =
     tf_lib\<lparr>define_macros := MACROS opts, include_dirs := INCLUDES opts,
       sources := SOURCES opts @ [''jpeg2dct/tensorflow/tf_lib.cc''],
       extra_compile_args := COMPILE_FLAGS opts @ tf_compile_flags,
       extra_link_args := LINK_FLAGS opts @ tf_link_flags,
       library_dirs := LIBRARY_DIRS opts, libraries := LIBRARIES opts\<rparr>"

text \<open>The value returned is the list of the TensorFlow compile flags that mention the
  ABI macro.\<close>

definition abi_flags_of :: "string list \<Rightarrow> string list" where
  "abi_flags_of flags = filter (\<lambda>flag. str_in ''_GLIBCXX_USE_CXX11_ABI'' flag) flags"

definition build_tf_extension :: "world \<Rightarrow> options \<Rightarrow> event list \<Rightarrow> string list result" where
  "build_tf_extension w opts log =
     (case check_tf_version w log of
        (Inl e, log1) \<Rightarrow> (Inl e, log1)
      | (Inr u, log1) \<Rightarrow>
     (case get_tf_flags w (COMPILE_FLAGS opts) log1 of
        (Inl e, log2) \<Rightarrow> (Inl e, log2)
      | (Inr (tf_compile_flags, tf_link_flags), log2) \<Rightarrow>
          (let ext = tf_extension opts tf_compile_flags tf_link_flags;
               log3 = log2 @ [BuildExtension ext]
           in case build_extension w ext of
                Some e \<Rightarrow> (Inl e, log3)
              | None \<Rightarrow> (Inr (abi_flags_of tf_compile_flags), log3))))"

subsection \<open>\<^verbatim>\<open>custom_build_ext.build_extensions\<close>\<close>

definition info_msg :: string where
  "info_msg = ''INFO: Unable to build TensorFlow plugin, will skip it.'' @ nl @ nl"

text \<open>
  Lines 266 to 278: the TensorFlow step, which yields \<^verbatim>\<open>abi_compile_flags\<close> and
  \<^verbatim>\<open>built_plugins\<close>. The bare \<^verbatim>\<open>except\<close> catches every exception.
\<close>

definition tf_step :: "world \<Rightarrow> options \<Rightarrow> event list \<Rightarrow> (string list \<times> bool list) result" where
  "tf_step w opts log =
     (if \<not> env_true (environ w) ''JPEG2DCT_WITHOUT_TENSORFLOW'' then
        (case build_tf_extension w opts log of
           (Inr abi_compile_flags, log1) \<Rightarrow> (Inr (abi_compile_flags, [True]), log1)
         | (Inl e, log1) \<Rightarrow>
             if \<not> env_true (environ w) ''JPEG2DCT_WITH_TENSORFLOW'' then
               (Inr ([], [False]), log1 @ [Print (info_msg @ format_exc w e)])
             else (Inl e, log1))
      else (Inr ([], []), log))"

definition build_extensions :: "world \<Rightarrow> event list \<Rightarrow> unit result" where
  "build_extensions w log =
     (case get_common_options w log of
        (Inl e, log1) \<Rightarrow> (Inl e, log1)
      | (Inr opts, log1) \<Rightarrow>
     (case tf_step w opts log1 of
        (Inl e, log2) \<Rightarrow> (Inl e, log2)
      | (Inr (abi_compile_flags, built_plugins), log2) \<Rightarrow>
     (case build_common_extension w opts abi_compile_flags log2 of
        (Inl e, log3) \<Rightarrow> (Inl e, log3)
      | (Inr u, log3) \<Rightarrow> build_numpy_extension w opts abi_compile_flags log3)))"

subsection \<open>Reading the record of a run\<close>

text \<open>
  The result of an attempt started on the empty record. No outside call depends on the
  record, so this is the result of the attempt wherever it is made (lemmas
  \<open>try_cpp_flags_split\<close>, \<open>try_tf_libs_split\<close>, \<open>try_tf_abi_split\<close>).
\<close>

definition outcome :: "('c \<Rightarrow> event list \<Rightarrow> 'r result) \<Rightarrow> 'c \<Rightarrow> exn + 'r" where
  "outcome attempt c = fst (attempt c [])"

fun is_test_compile :: "event \<Rightarrow> bool" where
  "is_test_compile (TestCompile n l i d m p) = True"
| "is_test_compile ev = False"

text \<open>The calls of \<^verbatim>\<open>test_compile\<close> of a run, in order.\<close>

definition test_compiles :: "event list \<Rightarrow> event list" where
  "test_compiles log = filter is_test_compile log"

text \<open>The call of \<^verbatim>\<open>test_compile\<close> that each probe makes for a candidate.\<close>

definition cpp_trial :: "string list \<Rightarrow> event" where
  "cpp_trial cpp_flags = TestCompile ''test_cpp_flags'' None None None None (Some cpp_flags)"

definition tf_libs_trial :: "string list \<Rightarrow> string list \<Rightarrow> string list \<Rightarrow> event" where
  "tf_libs_trial lib_dirs cpp_flags tf_libs =
     TestCompile ''test_tensorflow_libs'' (Some tf_libs) None (Some lib_dirs) None (Some cpp_flags)"

definition tf_abi_trial ::
  "string list \<Rightarrow> string list \<Rightarrow> string list \<Rightarrow> string list \<Rightarrow> string \<Rightarrow> event" where
  "tf_abi_trial include_dirs' lib_dirs libs cpp_flags cxx11_abi =
     TestCompile ''test_tensorflow_abi'' (Some libs) (Some include_dirs') (Some lib_dirs)
       (Some [(cxx11_abi_macro, cxx11_abi)]) (Some cpp_flags)"

text \<open>The reason the two handlers of the loop record for an exception.\<close>

definition recorded_reason :: "world \<Rightarrow> string \<Rightarrow> string \<Rightarrow> exn \<Rightarrow> string" where
  "recorded_reason w msg_cl msg_exc e =
     (if is_compile_or_link_error e then msg_cl else msg_exc @ format_exc w e)"

fun build_of :: "event \<Rightarrow> extension list" where
  "build_of (BuildExtension x) = [x]"
| "build_of ev = []"

text \<open>The extensions handed to \<^verbatim>\<open>build_ext.build_extension\<close> in a run, in order, and
  those of them with a given name.\<close>

definition built :: "event list \<Rightarrow> extension list" where
  "built log = concat (map build_of log)"

definition built_as :: "string \<Rightarrow> event list \<Rightarrow> extension list" where
  "built_as n log = filter (\<lambda>x. ext_name x = n) (built log)"

text \<open>The events that only the TensorFlow step produces.\<close>

fun tf_event :: "event \<Rightarrow> bool" where
  "tf_event (TestCompile n l i d m p) = (n \<noteq> ''test_cpp_flags'')"
| "tf_event (LoadOpLibrary f) = True"
| "tf_event ImportTensorflow = True"
| "tf_event (BuildExtension x) = (ext_name x = ext_name tf_lib)"
| "tf_event ImportNumpy = False"
| "tf_event (Print s) = False"

subsection \<open>Example worlds\<close>

text \<open>
  Concrete worlds on which the theorems below are exercised.
  \<^item> \<open>example_world\<close>: Linux, an empty environment, every outside call succeeds, and
    TensorFlow 1.15.0 declares its own flags.
  \<^item> \<open>picky_world\<close>: the first candidate of each probe is rejected, with a
    \<^verbatim>\<open>CompileError\<close> or a \<^verbatim>\<open>LinkError\<close>.
  \<^item> \<open>crashing_world\<close>: the same candidates are rejected, with another exception.
  \<^item> \<open>hopeless_world\<close>: no trial compilation succeeds.
  \<^item> \<open>interrupted_world\<close>: every compilation is interrupted from the keyboard.
  \<^item> \<open>old_version_world\<close>: TensorFlow reports the version \<^verbatim>\<open>'1.1'\<close>.
  \<^item> \<open>conda_world\<close>: \<^verbatim>\<open>CONDA_PREFIX\<close> is set.
  \<^item> \<open>no_tf_world\<close>: TensorFlow is not installed; in \<open>required_world\<close> it is required
    all the same.
  \<^item> \<open>disabled_world\<close>: \<open>example_world\<close> with the TensorFlow step switched off.
  \<^item> \<open>legacy_world\<close>: an old TensorFlow without the two flag functions, on the
    toolchain of \<open>picky_world\<close>, so that the flags are discovered by the probes.
  The function \<open>exn_text\<close> plays the part of \<^verbatim>\<open>traceback.format_exc\<close> in them.
\<close>

fun exn_text :: "exn \<Rightarrow> string" where
  "exn_text (CompileError m) = ''CompileError: '' @ m"
| "exn_text (LinkError m) = ''LinkError: '' @ m"
| "exn_text (DistutilsPlatformError m) =
     ''DistutilsPlatformError: '' @ (case m of None \<Rightarrow> ''None'' | Some s \<Rightarrow> s)"
| "exn_text (ImportError m) = ''ImportError: '' @ m"
| "exn_text (AttributeError m) = ''AttributeError: '' @ m"
| "exn_text (OtherException m) = ''Exception: '' @ m"
| "exn_text (NonException m) = ''KeyboardInterrupt: '' @ m"

definition example_tf :: tf_module where
  "example_tf = \<lparr>tf_version = Some ''1.15.0'', get_compile_flags = Inr [''-Iinc''],
     get_link_flags = Inr [''-Lfw'', ''-lfw''], get_include = Inr ''tf/include'',
     get_lib = Inr ''tf''\<rparr>"

definition example_world :: world where
  "example_world = \<lparr>platform = ''linux'', environ = Map.empty, build_temp = ''build/temp'',
     format_exc = exn_text, write_source = (\<lambda>p c. None), object_filename = (\<lambda>s. s @ ''.o''),
     shared_object_filename = (\<lambda>n d. os_path_join d (n @ ''.so'')),
     cc_compile = (\<lambda>s c p i m. None), cc_link = (\<lambda>ob so l d. None),
     import_tensorflow = Inr example_tf, load_op_library = (\<lambda>f. None), import_numpy = None,
     numpy_get_include = Inr ''numpy/core/include'', build_extension = (\<lambda>x. None)\<rparr>"

definition picky_world :: world where
  "picky_world = example_world\<lparr>
     cc_compile := (\<lambda>s c p i m.
       if p = Some default_flags then Some (CompileError ''no standard library'')
       else if m = Some [(cxx11_abi_macro, ''0'')] then Some (CompileError ''wrong ABI'')
       else None),
     cc_link := (\<lambda>ob so l d.
       if l = Some [''tensorflow_framework''] then Some (LinkError ''cannot find -ltensorflow_framework'')
       else None)\<rparr>"

definition hopeless_world :: world where
  "hopeless_world = example_world\<lparr>
     cc_compile := (\<lambda>s c p i m.
       if p = Some (default_flags @ [''-stdlib=libc++'']) then Some (OtherException ''compiler crashed'')
       else Some (CompileError ''rejected''))\<rparr>"

definition crashing_world :: world where
  "crashing_world = example_world\<lparr>
     cc_compile := (\<lambda>s c p i m.
       if p = Some default_flags \<or> m = Some [(cxx11_abi_macro, ''0'')]
       then Some (OtherException ''compiler crashed'') else None),
     cc_link := (\<lambda>ob so l d.
       if l = Some [''tensorflow_framework''] then Some (OtherException ''linker crashed'')
       else None)\<rparr>"

definition interrupted_world :: world where
  "interrupted_world = example_world\<lparr>
     cc_compile := (\<lambda>s c p i m. Some (NonException ''interrupted''))\<rparr>"

definition old_version_world :: world where
  "old_version_world = example_world\<lparr>
     import_tensorflow := Inr (example_tf\<lparr>tf_version := Some ''1.1''\<rparr>)\<rparr>"

definition conda_world :: world where
  "conda_world = example_world\<lparr>environ := [''CONDA_PREFIX'' \<mapsto> ''/opt/conda'']\<rparr>"

definition no_tf_world :: world where
  "no_tf_world = example_world\<lparr>
     import_tensorflow := Inl (ImportError ''No module named tensorflow'')\<rparr>"

definition required_world :: world where
  "required_world = no_tf_world\<lparr>environ := [''JPEG2DCT_WITH_TENSORFLOW'' \<mapsto> ''1'']\<rparr>"

definition disabled_world :: world where
  "disabled_world = example_world\<lparr>environ := [''JPEG2DCT_WITHOUT_TENSORFLOW'' \<mapsto> ''1'']\<rparr>"

definition legacy_world :: world where
  "legacy_world = picky_world\<lparr>
     import_tensorflow := Inr (example_tf\<lparr>
       get_compile_flags := Inl (AttributeError ''module has no attribute get_compile_flags''),
       get_link_flags := Inl (AttributeError ''module has no attribute get_link_flags'')\<rparr>)\<rparr>"

text \<open>The baseline options that the runs in these worlds compute.\<close>

definition example_options :: options where
  "example_options = \<lparr>MACROS = [], INCLUDES = [''./include''], SOURCES = [],
     COMPILE_FLAGS = [''-std=c++11'', ''-fPIC'', ''-O2''], LINK_FLAGS = [],
     LIBRARY_DIRS = [], LIBRARIES = []\<rparr>"

definition legacy_options :: options where
  "legacy_options = example_options\<lparr>
     COMPILE_FLAGS := [''-std=c++11'', ''-fPIC'', ''-O2'', ''-stdlib=libc++'']\<rparr>"

section \<open>Properties\<close>

subsection \<open>One attempt\<close>

text \<open>
  The outcome of \<^verbatim>\<open>test_compile\<close> does not depend on the record of the run, and
  each call adds exactly one entry to it. The same holds for the attempts of the three
  probes, which add nothing but a call of the framework's loader after that entry.
\<close>

lemma test_compile_split:
  "\<exists>r. \<forall>log. test_compile w n c l i d m p log = (r, log @ [TestCompile n l i d m p])"
proof -
  have "test_compile w n c l i d m p log
      = (fst (test_compile w n c l i d m p []), log @ [TestCompile n l i d m p])" for log
    by (simp add: test_compile_def Let_def split: option.splits)
  then show ?thesis by blast
qed

lemma try_cpp_flags_split:
  "try_cpp_flags w c log = (outcome (try_cpp_flags w) c, log @ [cpp_trial c])"
proof -
  obtain r where "\<And>log. test_compile w ''test_cpp_flags'' cpp_flags_code None None None None (Some c) log
      = (r, log @ [cpp_trial c])"
    unfolding cpp_trial_def using test_compile_split by blast
  then show ?thesis
    by (simp add: try_cpp_flags_def outcome_def split: sum.splits)
qed

lemma try_tf_libs_split:
  "\<exists>evs. try_tf_libs w ld cf c log = (outcome (try_tf_libs w ld cf) c, log @ tf_libs_trial ld cf c # evs)
     \<and> test_compiles evs = [] \<and> built evs = [] \<and> (\<forall>x\<in>set evs. tf_event x)"
proof -
  obtain r where "\<And>log. test_compile w ''test_tensorflow_libs'' tf_libs_code (Some c) None (Some ld) None (Some cf) log
      = (r, log @ [tf_libs_trial ld cf c])"
    unfolding tf_libs_trial_def using test_compile_split by blast
  then show ?thesis
    by (simp add: try_tf_libs_def outcome_def test_compiles_def built_def split: sum.splits option.splits)
qed

lemma try_tf_abi_split:
  "\<exists>evs. try_tf_abi w i ld l cf c log = (outcome (try_tf_abi w i ld l cf) c, log @ tf_abi_trial i ld l cf c # evs)
     \<and> test_compiles evs = [] \<and> built evs = [] \<and> (\<forall>x\<in>set evs. tf_event x)"
proof -
  obtain r where "\<And>log. test_compile w ''test_tensorflow_abi'' tf_abi_code (Some l) (Some i) (Some ld) (Some [(cxx11_abi_macro, c)]) (Some cf) log
      = (r, log @ [tf_abi_trial i ld l cf c])"
    unfolding tf_abi_trial_def using test_compile_split by blast
  then show ?thesis
    by (simp add: try_tf_abi_def outcome_def test_compiles_def built_def split: sum.splits option.splits)
qed


lemma test_compiles_append [simp]:
  "test_compiles (xs @ ys) = test_compiles xs @ test_compiles ys"
  by (simp add: test_compiles_def)

lemma built_append [simp]: "built (xs @ ys) = built xs @ built ys"
  by (simp add: built_def)

lemma built_as_append [simp]: "built_as n (xs @ ys) = built_as n xs @ built_as n ys"
  by (simp add: built_as_def)

lemma compile_or_link_error_is_Exception:
  "is_compile_or_link_error e \<Longrightarrow> is_Exception e"
  by (cases e) simp_all

lemma probe_loop_preserves:
  assumes "\<And>c l. f (snd (attempt c l)) = f l"
  shows "f (snd (probe_loop w m1 m2 attempt cs le log)) = f log"
proof (induction cs arbitrary: le log)
  case Nil
  show ?case by simp
next
  case (Cons c cs)
  obtain r l1 where a: "attempt c log = (r, l1)" by (cases "attempt c log")
  with assms [of c log] have "f l1 = f log" by simp
  with a Cons show ?case by (cases r) auto
qed

lemma probe_loop_skip:
  assumes att: "\<And>c l. \<exists>evs. attempt c l = (outcome attempt c, l @ tc c # evs) \<and> test_compiles evs = []"
    and tc: "\<And>c. is_test_compile (tc c)"
    and pre: "\<forall>x\<in>set pre. \<exists>e. outcome attempt x = Inl e \<and> is_Exception e"
  shows "\<exists>l1 le1. probe_loop w m1 m2 attempt (pre @ rest) le log = probe_loop w m1 m2 attempt rest le1 l1
           \<and> test_compiles l1 = test_compiles log @ map tc pre
           \<and> (pre = [] \<longrightarrow> le1 = le \<and> l1 = log)
           \<and> (\<forall>e. pre \<noteq> [] \<longrightarrow> outcome attempt (last pre) = Inl e \<longrightarrow> le1 = Some (recorded_reason w m1 m2 e))"
  using pre
proof (induction pre arbitrary: le log)
  case Nil
  show ?case by simp
next
  case (Cons c pre)
  from Cons.prems obtain e where e: "outcome attempt c = Inl e" "is_Exception e" by auto
  from att [of c log] obtain evs where a: "attempt c log = (Inl e, log @ tc c # evs)" "test_compiles evs = []"
    using e by auto
  have tcc: "test_compiles (tc c # evs) = [tc c]" using tc [of c] a(2) by (simp add: test_compiles_def)
  define le' where "le' = Some (recorded_reason w m1 m2 e)"
  have step: "probe_loop w m1 m2 attempt ((c # pre) @ rest) le log
      = probe_loop w m1 m2 attempt (pre @ rest) le' (log @ tc c # evs)"
    using a e by (simp add: le'_def recorded_reason_def)
  from Cons.IH [of le' "log @ tc c # evs"] Cons.prems
  obtain l1 le1 where ih: "probe_loop w m1 m2 attempt (pre @ rest) le' (log @ tc c # evs) = probe_loop w m1 m2 attempt rest le1 l1"
     "test_compiles l1 = test_compiles (log @ tc c # evs) @ map tc pre"
     "pre = [] \<longrightarrow> le1 = le' \<and> l1 = log @ tc c # evs"
     "\<forall>e. pre \<noteq> [] \<longrightarrow> outcome attempt (last pre) = Inl e \<longrightarrow> le1 = Some (recorded_reason w m1 m2 e)"
    by auto
  have t: "test_compiles l1 = test_compiles log @ map tc (c # pre)"
    using ih(2) tcc by simp
  show ?case
    apply (rule exI [of _ l1], rule exI [of _ le1])
    using step ih t e by (auto simp: le'_def)
qed

lemma probe_loop_Inr:
  assumes att: "\<And>c l. \<exists>evs. attempt c l = (outcome attempt c, l @ tc c # evs) \<and> test_compiles evs = []"
    and tc: "\<And>c. is_test_compile (tc c)"
    and res: "probe_loop w m1 m2 attempt cs le log = (Inr r, log')"
  shows "\<exists>pre c post. cs = pre @ c # post
           \<and> (\<forall>x\<in>set pre. \<exists>e. outcome attempt x = Inl e \<and> is_Exception e)
           \<and> outcome attempt c = Inr r
           \<and> test_compiles log' = test_compiles log @ map tc (pre @ [c])"
  using res
proof (induction cs arbitrary: le log)
  case Nil
  then show ?case by simp
next
  case (Cons c cs)
  from att [of c log] obtain evs where a: "attempt c log = (outcome attempt c, log @ tc c # evs)" "test_compiles evs = []"
    by auto
  have tcc: "test_compiles (tc c # evs) = [tc c]" using tc [of c] a(2) by (simp add: test_compiles_def)
  show ?case
  proof (cases "outcome attempt c")
    case (Inr r')
    with a Cons.prems have "r' = r" "log' = log @ tc c # evs" by auto
    with Inr tcc have "c # cs = [] @ c # cs \<and> (\<forall>x\<in>set []. \<exists>e. outcome attempt x = Inl e \<and> is_Exception e)
        \<and> outcome attempt c = Inr r \<and> test_compiles log' = test_compiles log @ map tc ([] @ [c])"
      by simp
    then show ?thesis by blast
  next
    case (Inl e)
    with a Cons.prems have ex: "is_Exception e"
      by (auto split: if_splits dest: compile_or_link_error_is_Exception)
    from Inl a Cons.prems ex obtain le' where
      "probe_loop w m1 m2 attempt cs le' (log @ tc c # evs) = (Inr r, log')"
      by (auto split: if_splits)
    from Cons.IH [OF this] obtain pre d post where ih: "cs = pre @ d # post"
      "\<forall>x\<in>set pre. \<exists>e. outcome attempt x = Inl e \<and> is_Exception e"
      "outcome attempt d = Inr r"
      "test_compiles log' = test_compiles (log @ tc c # evs) @ map tc (pre @ [d])"
      by blast
    have "c # cs = (c # pre) @ d # post \<and> (\<forall>x\<in>set (c # pre). \<exists>e. outcome attempt x = Inl e \<and> is_Exception e)
        \<and> outcome attempt d = Inr r \<and> test_compiles log' = test_compiles log @ map tc ((c # pre) @ [d])"
      using ih Inl ex tcc by simp
    then show ?thesis by blast
  qed
qed

subsection \<open>The candidate loop\<close>

lemma probe_loop_head:
  assumes att: "\<And>c l. \<exists>evs. attempt c l = (outcome attempt c, l @ tc c # evs) \<and> test_compiles evs = []"
    and tc: "\<And>c. is_test_compile (tc c)"
  shows "\<exists>l1. test_compiles l1 = test_compiles log @ [tc c] \<and>
           probe_loop w m1 m2 attempt (c # cs) le log =
             (case outcome attempt c of
                Inr r \<Rightarrow> (Inr r, l1)
              | Inl e \<Rightarrow> if is_Exception e then probe_loop w m1 m2 attempt cs (Some (recorded_reason w m1 m2 e)) l1
                         else (Inl e, l1))"
proof -
  from att [of c log] obtain evs where a: "attempt c log = (outcome attempt c, log @ tc c # evs)" "test_compiles evs = []"
    by auto
  have tcc: "test_compiles (log @ tc c # evs) = test_compiles log @ [tc c]"
    using tc [of c] a(2) by (simp add: test_compiles_def)
  show ?thesis
    apply (rule exI [of _ "log @ tc c # evs"])
    using a(1) tcc
    by (auto simp: recorded_reason_def split: sum.splits dest: compile_or_link_error_is_Exception)
qed

lemma probe_loop_trials:
  assumes att: "\<And>c l. \<exists>evs. attempt c l = (outcome attempt c, l @ tc c # evs) \<and> test_compiles evs = []"
    and tc: "\<And>c. is_test_compile (tc c)"
  shows "\<exists>n. test_compiles (snd (probe_loop w m1 m2 attempt cs le log)) = test_compiles log @ map tc (take n cs)
           \<and> (cs \<noteq> [] \<longrightarrow> 0 < n)"
proof (induction cs arbitrary: le log)
  case Nil
  show ?case by simp
next
  case (Cons c cs)
  from probe_loop_head [OF att tc, of log c w m1 m2 cs le]
  obtain l1 where l1: "test_compiles l1 = test_compiles log @ [tc c]"
    "probe_loop w m1 m2 attempt (c # cs) le log =
             (case outcome attempt c of
                Inr r \<Rightarrow> (Inr r, l1)
              | Inl e \<Rightarrow> if is_Exception e then probe_loop w m1 m2 attempt cs (Some (recorded_reason w m1 m2 e)) l1
                         else (Inl e, l1))" by blast
  show ?case
  proof (cases "\<exists>e. outcome attempt c = Inl e \<and> is_Exception e")
    case True
    then obtain e where e: "outcome attempt c = Inl e" "is_Exception e" by blast
    from Cons.IH [of "Some (recorded_reason w m1 m2 e)" l1] obtain n where
      "test_compiles (snd (probe_loop w m1 m2 attempt cs (Some (recorded_reason w m1 m2 e)) l1))
         = test_compiles l1 @ map tc (take n cs)" by blast
    with l1 e have "test_compiles (snd (probe_loop w m1 m2 attempt (c # cs) le log))
        = test_compiles log @ map tc (take (Suc n) (c # cs))" by simp
    then show ?thesis by blast
  next
    case False
    with l1 have "test_compiles (snd (probe_loop w m1 m2 attempt (c # cs) le log))
        = test_compiles log @ map tc (take (Suc 0) (c # cs))"
      by (auto split: sum.splits)
    then show ?thesis by blast
  qed
qed

lemma probe_loop_wins:
  assumes att: "\<And>c l. \<exists>evs. attempt c l = (outcome attempt c, l @ tc c # evs) \<and> test_compiles evs = []"
    and tc: "\<And>c. is_test_compile (tc c)"
    and pre: "\<forall>x\<in>set pre. \<exists>e. outcome attempt x = Inl e \<and> is_Exception e"
    and c: "outcome attempt c = Inr r"
  shows "fst (probe_loop w m1 m2 attempt (pre @ c # post) le log) = Inr r"
proof -
  from probe_loop_skip [OF att tc pre, of w m1 m2 "c # post" le log]
  obtain l1 le1 where s: "probe_loop w m1 m2 attempt (pre @ c # post) le log
      = probe_loop w m1 m2 attempt (c # post) le1 l1" by blast
  from probe_loop_head [OF att tc, of l1 c w m1 m2 post le1] c
  have "fst (probe_loop w m1 m2 attempt (c # post) le1 l1) = Inr r" by auto
  with s show ?thesis by simp
qed

lemma probe_loop_escapes:
  assumes att: "\<And>c l. \<exists>evs. attempt c l = (outcome attempt c, l @ tc c # evs) \<and> test_compiles evs = []"
    and tc: "\<And>c. is_test_compile (tc c)"
    and pre: "\<forall>x\<in>set pre. \<exists>e. outcome attempt x = Inl e \<and> is_Exception e"
    and c: "outcome attempt c = Inl e" "\<not> is_Exception e"
  shows "fst (probe_loop w m1 m2 attempt (pre @ c # post) le log) = Inl e
    \<and> test_compiles (snd (probe_loop w m1 m2 attempt (pre @ c # post) le log))
        = test_compiles log @ map tc (pre @ [c])"
proof -
  from probe_loop_skip [OF att tc pre, of w m1 m2 "c # post" le log]
  obtain l1 le1 where s: "probe_loop w m1 m2 attempt (pre @ c # post) le log
      = probe_loop w m1 m2 attempt (c # post) le1 l1"
      "test_compiles l1 = test_compiles log @ map tc pre" by blast
  from probe_loop_head [OF att tc, of l1 c w m1 m2 post le1] c
  obtain l2 where "test_compiles l2 = test_compiles l1 @ [tc c]"
    "probe_loop w m1 m2 attempt (c # post) le1 l1 = (Inl e, l2)" by auto
  with s show ?thesis by simp
qed

lemma probe_loop_all_fail:
  assumes att: "\<And>c l. \<exists>evs. attempt c l = (outcome attempt c, l @ tc c # evs) \<and> test_compiles evs = []"
    and tc: "\<And>c. is_test_compile (tc c)"
    and cs: "\<forall>x\<in>set cs. \<exists>e. outcome attempt x = Inl e \<and> is_Exception e" "cs \<noteq> []"
    and last: "outcome attempt (last cs) = Inl e"
  shows "fst (probe_loop w m1 m2 attempt cs le log) = Inl (DistutilsPlatformError (Some (recorded_reason w m1 m2 e)))
    \<and> test_compiles (snd (probe_loop w m1 m2 attempt cs le log)) = test_compiles log @ map tc cs"
proof -
  from probe_loop_skip [OF att tc cs(1), of w m1 m2 "[]" le log]
  obtain l1 le1 where s: "probe_loop w m1 m2 attempt cs le log
      = probe_loop w m1 m2 attempt [] le1 l1"
      "test_compiles l1 = test_compiles log @ map tc cs"
      "\<forall>e. cs \<noteq> [] \<longrightarrow> outcome attempt (last cs) = Inl e \<longrightarrow> le1 = Some (recorded_reason w m1 m2 e)"
    by auto
  with cs(2) last have "le1 = Some (recorded_reason w m1 m2 e)" by blast
  with s show ?thesis by simp
qed

lemma probe_loop_continues:
  assumes att: "\<And>c l. \<exists>evs. attempt c l = (outcome attempt c, l @ tc c # evs) \<and> test_compiles evs = []"
    and tc: "\<And>c. is_test_compile (tc c)"
    and pre: "\<forall>x\<in>set pre. \<exists>e. outcome attempt x = Inl e \<and> is_Exception e"
    and c: "outcome attempt c = Inl e" "is_Exception e"
  shows "tc c' \<in> set (test_compiles (snd (probe_loop w m1 m2 attempt (pre @ c # c' # post) le log)))"
proof -
  have "\<forall>x\<in>set (pre @ [c]). \<exists>e. outcome attempt x = Inl e \<and> is_Exception e"
    using pre c by auto
  from probe_loop_skip [OF att tc this, of w m1 m2 "c' # post" le log]
  obtain l1 le1 where s: "probe_loop w m1 m2 attempt (pre @ c # c' # post) le log
      = probe_loop w m1 m2 attempt (c' # post) le1 l1" by auto
  from probe_loop_trials [OF att tc, of w m1 m2 "c' # post" le1 l1]
  obtain n where "test_compiles (snd (probe_loop w m1 m2 attempt (c' # post) le1 l1))
      = test_compiles l1 @ map tc (take n (c' # post))" "0 < n" by auto
  then show ?thesis using s by (cases n) auto
qed

lemma cpp_attempt:
  "\<exists>evs. try_cpp_flags w c l = (outcome (try_cpp_flags w) c, l @ cpp_trial c # evs) \<and> test_compiles evs = []"
  by (simp add: try_cpp_flags_split test_compiles_def)

lemma tf_libs_attempt:
  "\<exists>evs. try_tf_libs w ld cf c l = (outcome (try_tf_libs w ld cf) c, l @ tf_libs_trial ld cf c # evs)
     \<and> test_compiles evs = []"
  using try_tf_libs_split [of w ld cf c l] by blast

lemma tf_abi_attempt:
  "\<exists>evs. try_tf_abi w i ld lb cf c l = (outcome (try_tf_abi w i ld lb cf) c, l @ tf_abi_trial i ld lb cf c # evs)
     \<and> test_compiles evs = []"
  using try_tf_abi_split [of w i ld lb cf c l] by blast

lemma is_test_compile_trials [simp]:
  "is_test_compile (cpp_trial c)" "is_test_compile (tf_libs_trial ld cf c)"
  "is_test_compile (tf_abi_trial i ld lb cf v)"
  by (simp_all add: cpp_trial_def tf_libs_trial_def tf_abi_trial_def)

lemma try_cpp_flags_returns:
  "outcome (try_cpp_flags w) c = Inr r \<Longrightarrow> r = c"
  by (auto simp: outcome_def try_cpp_flags_def split: prod.splits sum.splits)



lemma get_cpp_flags_sound:
  assumes "get_cpp_flags w log = (Inr r, log')"
  shows "\<exists>pre post. flags_to_try w = pre @ r # post
          \<and> (\<forall>c\<in>set pre. \<exists>e. outcome (try_cpp_flags w) c = Inl e \<and> is_Exception e)
          \<and> outcome (try_cpp_flags w) r = Inr r
          \<and> test_compiles log' = test_compiles log @ map cpp_trial (pre @ [r])"
proof -
  from probe_loop_Inr [OF cpp_attempt is_test_compile_trials(1) assms [unfolded get_cpp_flags_def]]
  obtain pre c post where p: "flags_to_try w = pre @ c # post"
     "\<forall>x\<in>set pre. \<exists>e. outcome (try_cpp_flags w) x = Inl e \<and> is_Exception e"
     "outcome (try_cpp_flags w) c = Inr r"
     "test_compiles log' = test_compiles log @ map cpp_trial (pre @ [c])" by blast
  from p(3) have "r = c" by (rule try_cpp_flags_returns)
  with p show ?thesis by blast
qed



lemmas world_defs = example_world_def picky_world_def example_tf_def hopeless_world_def
  crashing_world_def interrupted_world_def old_version_world_def conda_world_def no_tf_world_def
  required_world_def disabled_world_def legacy_world_def
lemmas probe_defs = get_cpp_flags_def flags_to_try_def try_cpp_flags_def test_compile_def
  default_flags_def cpp_trial_def outcome_def get_tf_libs_def tf_libs_to_try_def try_tf_libs_def
  tf_libs_trial_def get_tf_abi_def tf_abi_to_try_def try_tf_abi_def tf_abi_trial_def




subsection \<open>First success wins\<close>



subsection \<open>Exhausted candidates\<close>

lemma flags_to_try_nonempty: "flags_to_try w \<noteq> []"
  by (simp add: flags_to_try_def)

text \<open>
  Claim C6. If the attempt on every candidate of a probe fails (raises an exception that
  the handlers of the loop catch), the probe raises \<^verbatim>\<open>DistutilsPlatformError\<close> and
  the diagnostic it carries is the reason recorded for the last candidate: the fixed text
  of the probe if that attempt raised \<^verbatim>\<open>CompileError\<close> or \<^verbatim>\<open>LinkError\<close>, the
  text ending in the traceback otherwise. The reasons of the earlier candidates do not
  occur in it. Every candidate has been attempted, in order.
\<close>

theorem last_reason_reported:
  "((\<forall>c\<in>set (flags_to_try w). \<exists>e. outcome (try_cpp_flags w) c = Inl e \<and> is_Exception e)
       \<and> outcome (try_cpp_flags w) (last (flags_to_try w)) = Inl e1 \<longrightarrow>
     fst (get_cpp_flags w log)
       = Inl (DistutilsPlatformError (Some (recorded_reason w cpp_msg_cl cpp_msg_exc e1)))
     \<and> test_compiles (snd (get_cpp_flags w log))
       = test_compiles log @ map cpp_trial (flags_to_try w))
   \<and> ((\<forall>c\<in>set tf_libs_to_try. \<exists>e. outcome (try_tf_libs w lib_dirs cpp_flags) c = Inl e \<and> is_Exception e)
       \<and> outcome (try_tf_libs w lib_dirs cpp_flags) (last tf_libs_to_try) = Inl e2 \<longrightarrow>
     fst (get_tf_libs w lib_dirs cpp_flags log)
       = Inl (DistutilsPlatformError (Some (recorded_reason w tf_libs_msg_cl tf_libs_msg_exc e2)))
     \<and> test_compiles (snd (get_tf_libs w lib_dirs cpp_flags log))
       = test_compiles log @ map (tf_libs_trial lib_dirs cpp_flags) tf_libs_to_try)
   \<and> ((\<forall>c\<in>set tf_abi_to_try.
          \<exists>e. outcome (try_tf_abi w incs lib_dirs libs cpp_flags) c = Inl e \<and> is_Exception e)
       \<and> outcome (try_tf_abi w incs lib_dirs libs cpp_flags) (last tf_abi_to_try) = Inl e3 \<longrightarrow>
     fst (get_tf_abi w incs lib_dirs libs cpp_flags log)
       = Inl (DistutilsPlatformError (Some (recorded_reason w tf_abi_msg_cl tf_abi_msg_exc e3)))
     \<and> test_compiles (snd (get_tf_abi w incs lib_dirs libs cpp_flags log))
       = test_compiles log @ map (tf_abi_trial incs lib_dirs libs cpp_flags) tf_abi_to_try)"
proof (intro conjI impI)
  assume a: "(\<forall>c\<in>set (flags_to_try w). \<exists>e. outcome (try_cpp_flags w) c = Inl e \<and> is_Exception e)
       \<and> outcome (try_cpp_flags w) (last (flags_to_try w)) = Inl e1"
  note r = probe_loop_all_fail [OF cpp_attempt is_test_compile_trials(1) conjunct1 [OF a]
      flags_to_try_nonempty conjunct2 [OF a], of w cpp_msg_cl cpp_msg_exc None log]
  from r show "fst (get_cpp_flags w log)
       = Inl (DistutilsPlatformError (Some (recorded_reason w cpp_msg_cl cpp_msg_exc e1)))"
    by (simp add: get_cpp_flags_def)
  from r show "test_compiles (snd (get_cpp_flags w log))
       = test_compiles log @ map cpp_trial (flags_to_try w)"
    by (simp add: get_cpp_flags_def)
next
  assume a: "(\<forall>c\<in>set tf_libs_to_try. \<exists>e. outcome (try_tf_libs w lib_dirs cpp_flags) c = Inl e \<and> is_Exception e)
       \<and> outcome (try_tf_libs w lib_dirs cpp_flags) (last tf_libs_to_try) = Inl e2"
  have ne: "tf_libs_to_try \<noteq> []" by (simp add: tf_libs_to_try_def)
  note r = probe_loop_all_fail [OF tf_libs_attempt is_test_compile_trials(2) conjunct1 [OF a]
      ne conjunct2 [OF a], of w tf_libs_msg_cl tf_libs_msg_exc None log]
  from r show "fst (get_tf_libs w lib_dirs cpp_flags log)
       = Inl (DistutilsPlatformError (Some (recorded_reason w tf_libs_msg_cl tf_libs_msg_exc e2)))"
    by (simp add: get_tf_libs_def)
  from r show "test_compiles (snd (get_tf_libs w lib_dirs cpp_flags log))
       = test_compiles log @ map (tf_libs_trial lib_dirs cpp_flags) tf_libs_to_try"
    by (simp add: get_tf_libs_def)
next
  assume a: "(\<forall>c\<in>set tf_abi_to_try.
          \<exists>e. outcome (try_tf_abi w incs lib_dirs libs cpp_flags) c = Inl e \<and> is_Exception e)
       \<and> outcome (try_tf_abi w incs lib_dirs libs cpp_flags) (last tf_abi_to_try) = Inl e3"
  have ne: "tf_abi_to_try \<noteq> []" by (simp add: tf_abi_to_try_def)
  note r = probe_loop_all_fail [OF tf_abi_attempt is_test_compile_trials(3) conjunct1 [OF a]
      ne conjunct2 [OF a], of w tf_abi_msg_cl tf_abi_msg_exc None log]
  from r show "fst (get_tf_abi w incs lib_dirs libs cpp_flags log)
       = Inl (DistutilsPlatformError (Some (recorded_reason w tf_abi_msg_cl tf_abi_msg_exc e3)))"
    by (simp add: get_tf_abi_def)
  from r show "test_compiles (snd (get_tf_abi w incs lib_dirs libs cpp_flags log))
       = test_compiles log @ map (tf_abi_trial incs lib_dirs libs cpp_flags) tf_abi_to_try"
    by (simp add: get_tf_abi_def)
qed

theorem last_reason_reported_witness:
  "fst (get_cpp_flags hopeless_world [])
     = Inl (DistutilsPlatformError (Some (cpp_msg_exc @ ''Exception: compiler crashed'')))
   \<and> test_compiles (snd (get_cpp_flags hopeless_world []))
     = [cpp_trial [''-std=c++11'', ''-fPIC'', ''-O2''],
        cpp_trial [''-std=c++11'', ''-fPIC'', ''-O2'', ''-stdlib=libc++'']]
   \<and> fst (get_tf_libs hopeless_world [''tf''] [''-O2''] [])
     = Inl (DistutilsPlatformError (Some tf_libs_msg_cl))
   \<and> test_compiles (snd (get_tf_libs hopeless_world [''tf''] [''-O2''] []))
     = [tf_libs_trial [''tf''] [''-O2''] [''tensorflow_framework''], tf_libs_trial [''tf''] [''-O2''] []]
   \<and> fst (get_tf_abi hopeless_world [''tf/include''] [''tf''] [] [''-O2''] [])
     = Inl (DistutilsPlatformError (Some tf_abi_msg_cl))
   \<and> test_compiles (snd (get_tf_abi hopeless_world [''tf/include''] [''tf''] [] [''-O2''] []))
     = [tf_abi_trial [''tf/include''] [''tf''] [] [''-O2''] ''0'',
        tf_abi_trial [''tf/include''] [''tf''] [] [''-O2''] ''1'']"
proof -
  have h1: "(\<forall>c\<in>set (flags_to_try hopeless_world).
               \<exists>e. outcome (try_cpp_flags hopeless_world) c = Inl e \<and> is_Exception e)
      \<and> outcome (try_cpp_flags hopeless_world) (last (flags_to_try hopeless_world))
          = Inl (OtherException ''compiler crashed'')"
    by (simp add: world_defs probe_defs)
  have h2: "(\<forall>c\<in>set tf_libs_to_try.
               \<exists>e. outcome (try_tf_libs hopeless_world [''tf''] [''-O2'']) c = Inl e \<and> is_Exception e)
      \<and> outcome (try_tf_libs hopeless_world [''tf''] [''-O2'']) (last tf_libs_to_try)
          = Inl (CompileError ''rejected'')"
    by (simp add: world_defs probe_defs)
  have h3: "(\<forall>c\<in>set tf_abi_to_try.
               \<exists>e. outcome (try_tf_abi hopeless_world [''tf/include''] [''tf''] [] [''-O2'']) c = Inl e
                 \<and> is_Exception e)
      \<and> outcome (try_tf_abi hopeless_world [''tf/include''] [''tf''] [] [''-O2'']) (last tf_abi_to_try)
          = Inl (CompileError ''rejected'')"
    by (simp add: world_defs probe_defs)
  have f: "format_exc hopeless_world = exn_text"
    by (simp add: world_defs)
  have c: "flags_to_try hopeless_world = [[''-std=c++11'', ''-fPIC'', ''-O2''],
        [''-std=c++11'', ''-fPIC'', ''-O2'', ''-stdlib=libc++'']]"
    by (simp add: world_defs probe_defs)
  note T = last_reason_reported [where w = hopeless_world and log = "[]"
      and ?e1.0 = "OtherException ''compiler crashed''"
      and lib_dirs = "[''tf'']" and cpp_flags = "[''-O2'']" and ?e2.0 = "CompileError ''rejected''"
      and incs = "[''tf/include'']" and libs = "[]" and ?e3.0 = "CompileError ''rejected''"]
  from T h1 h2 h3 show ?thesis
    by (simp add: recorded_reason_def f c tf_libs_to_try_def tf_abi_to_try_def test_compiles_def)
qed

subsection \<open>Exceptions other than compile and link errors\<close>

lemma probe_loop_other:
  assumes att: "\<And>c l. \<exists>evs. attempt c l = (outcome attempt c, l @ tc c # evs) \<and> test_compiles evs = []"
    and tc: "\<And>c. is_test_compile (tc c)"
    and pre: "\<forall>x\<in>set pre. \<exists>e. outcome attempt x = Inl e \<and> is_Exception e"
    and c: "outcome attempt c = Inl e" "\<not> is_compile_or_link_error e"
  shows "(\<not> is_Exception e \<longrightarrow>
            fst (probe_loop w m1 m2 attempt (pre @ c # post) le log) = Inl e
          \<and> test_compiles (snd (probe_loop w m1 m2 attempt (pre @ c # post) le log))
              = test_compiles log @ map tc (pre @ [c]))
       \<and> (is_Exception e \<longrightarrow>
            (post = [] \<longrightarrow> fst (probe_loop w m1 m2 attempt (pre @ c # post) le log)
               = Inl (DistutilsPlatformError (Some (m2 @ format_exc w e))))
          \<and> (\<forall>c' post'. post = c' # post' \<longrightarrow>
               tc c' \<in> set (test_compiles (snd (probe_loop w m1 m2 attempt (pre @ c # post) le log)))
             \<and> (\<forall>r. outcome attempt c' = Inr r \<longrightarrow>
                  fst (probe_loop w m1 m2 attempt (pre @ c # post) le log) = Inr r)))"
proof (intro conjI impI allI)
  assume "\<not> is_Exception e"
  from probe_loop_escapes [OF att tc pre c(1) this]
  show "fst (probe_loop w m1 m2 attempt (pre @ c # post) le log) = Inl e"
    and "test_compiles (snd (probe_loop w m1 m2 attempt (pre @ c # post) le log))
              = test_compiles log @ map tc (pre @ [c])"
    by simp_all
next
  assume ex: "is_Exception e" and post: "post = []"
  have all: "\<forall>x\<in>set (pre @ [c]). \<exists>e. outcome attempt x = Inl e \<and> is_Exception e"
    using pre c ex by auto
  have "fst (probe_loop w m1 m2 attempt (pre @ [c]) le log)
      = Inl (DistutilsPlatformError (Some (recorded_reason w m1 m2 e)))"
    using probe_loop_all_fail [OF att tc all, of e w m1 m2 le log] c by simp
  with post c show "fst (probe_loop w m1 m2 attempt (pre @ c # post) le log)
               = Inl (DistutilsPlatformError (Some (m2 @ format_exc w e)))"
    by (simp add: recorded_reason_def)
next
  fix c' post'
  assume ex: "is_Exception e" and post: "post = c' # post'"
  from probe_loop_continues [OF att tc pre c(1) ex] post
  show "tc c' \<in> set (test_compiles (snd (probe_loop w m1 m2 attempt (pre @ c # post) le log)))"
    by simp
next
  fix c' post' r
  assume ex: "is_Exception e" and post: "post = c' # post'" and r: "outcome attempt c' = Inr r"
  have all: "\<forall>x\<in>set (pre @ [c]). \<exists>e. outcome attempt x = Inl e \<and> is_Exception e"
    using pre c ex by auto
  from probe_loop_wins [OF att tc all r, of w m1 m2 post' le log] post
  show "fst (probe_loop w m1 m2 attempt (pre @ c # post) le log) = Inr r"
    by simp
qed

text \<open>
  Claim C3 as stated fails. The claim says that an exception that is neither
  \<^verbatim>\<open>CompileError\<close> nor \<^verbatim>\<open>LinkError\<close> ends the probe at once. The loop has a
  second handler, \<^verbatim>\<open>except Exception\<close>, which records the traceback as the last
  reason and goes on with the next candidate. In \<open>crashing_world\<close> the compiler raises
  such an exception on the first candidate of \<^verbatim>\<open>get_cpp_flags\<close>; the probe attempts
  the second candidate and returns it, and the exception is reported nowhere.
\<close>

theorem other_exception_fatal_counterexample:
  "outcome (try_cpp_flags crashing_world) [''-std=c++11'', ''-fPIC'', ''-O2'']
     = Inl (OtherException ''compiler crashed'')
   \<and> \<not> is_compile_or_link_error (OtherException ''compiler crashed'')
   \<and> get_cpp_flags crashing_world []
     = (Inr [''-std=c++11'', ''-fPIC'', ''-O2'', ''-stdlib=libc++''],
        [cpp_trial [''-std=c++11'', ''-fPIC'', ''-O2''],
         cpp_trial [''-std=c++11'', ''-fPIC'', ''-O2'', ''-stdlib=libc++'']])"
  by (simp add: world_defs probe_defs)

text \<open>
  Claim C3, as amended. For each of the three probes: let the attempt on a candidate raise
  an exception \<open>e\<close> that is neither \<^verbatim>\<open>CompileError\<close> nor \<^verbatim>\<open>LinkError\<close>, the
  attempts on the candidates before it having failed. If \<open>e\<close> is not an
  \<^verbatim>\<open>Exception\<close>, it leaves the probe at once and no later candidate is attempted. If
  \<open>e\<close> is an \<^verbatim>\<open>Exception\<close>, it is caught: when the candidate is the last one, the
  probe raises \<^verbatim>\<open>DistutilsPlatformError\<close> carrying the text of the probe followed by
  the traceback of \<open>e\<close>; otherwise the next candidate is attempted, and if that attempt
  succeeds the probe returns normally.
\<close>

theorem other_exception_caught:
  "(flags_to_try w = pre1 @ c1 # post1
       \<and> (\<forall>x\<in>set pre1. \<exists>e. outcome (try_cpp_flags w) x = Inl e \<and> is_Exception e)
       \<and> outcome (try_cpp_flags w) c1 = Inl e1 \<and> \<not> is_compile_or_link_error e1 \<longrightarrow>
     (\<not> is_Exception e1 \<longrightarrow>
        fst (get_cpp_flags w log) = Inl e1
        \<and> test_compiles (snd (get_cpp_flags w log))
            = test_compiles log @ map cpp_trial (pre1 @ [c1]))
     \<and> (is_Exception e1 \<longrightarrow>
          (post1 = [] \<longrightarrow>
             fst (get_cpp_flags w log)
               = Inl (DistutilsPlatformError (Some (cpp_msg_exc @ format_exc w e1))))
          \<and> (\<forall>c' post'. post1 = c' # post' \<longrightarrow>
                cpp_trial c' \<in> set (test_compiles (snd (get_cpp_flags w log)))
                \<and> (\<forall>r. outcome (try_cpp_flags w) c' = Inr r \<longrightarrow> fst (get_cpp_flags w log) = Inr r))))
   \<and> (tf_libs_to_try = pre2 @ c2 # post2
       \<and> (\<forall>x\<in>set pre2. \<exists>e. outcome (try_tf_libs w lib_dirs cpp_flags) x = Inl e \<and> is_Exception e)
       \<and> outcome (try_tf_libs w lib_dirs cpp_flags) c2 = Inl e2 \<and> \<not> is_compile_or_link_error e2 \<longrightarrow>
     (\<not> is_Exception e2 \<longrightarrow>
        fst (get_tf_libs w lib_dirs cpp_flags log) = Inl e2
        \<and> test_compiles (snd (get_tf_libs w lib_dirs cpp_flags log))
            = test_compiles log @ map (tf_libs_trial lib_dirs cpp_flags) (pre2 @ [c2]))
     \<and> (is_Exception e2 \<longrightarrow>
          (post2 = [] \<longrightarrow>
             fst (get_tf_libs w lib_dirs cpp_flags log)
               = Inl (DistutilsPlatformError (Some (tf_libs_msg_exc @ format_exc w e2))))
          \<and> (\<forall>c' post'. post2 = c' # post' \<longrightarrow>
                tf_libs_trial lib_dirs cpp_flags c'
                  \<in> set (test_compiles (snd (get_tf_libs w lib_dirs cpp_flags log)))
                \<and> (\<forall>r. outcome (try_tf_libs w lib_dirs cpp_flags) c' = Inr r \<longrightarrow>
                     fst (get_tf_libs w lib_dirs cpp_flags log) = Inr r))))
   \<and> (tf_abi_to_try = pre3 @ c3 # post3
       \<and> (\<forall>x\<in>set pre3. \<exists>e. outcome (try_tf_abi w incs lib_dirs libs cpp_flags) x = Inl e \<and> is_Exception e)
       \<and> outcome (try_tf_abi w incs lib_dirs libs cpp_flags) c3 = Inl e3
       \<and> \<not> is_compile_or_link_error e3 \<longrightarrow>
     (\<not> is_Exception e3 \<longrightarrow>
        fst (get_tf_abi w incs lib_dirs libs cpp_flags log) = Inl e3
        \<and> test_compiles (snd (get_tf_abi w incs lib_dirs libs cpp_flags log))
            = test_compiles log @ map (tf_abi_trial incs lib_dirs libs cpp_flags) (pre3 @ [c3]))
     \<and> (is_Exception e3 \<longrightarrow>
          (post3 = [] \<longrightarrow>
             fst (get_tf_abi w incs lib_dirs libs cpp_flags log)
               = Inl (DistutilsPlatformError (Some (tf_abi_msg_exc @ format_exc w e3))))
          \<and> (\<forall>c' post'. post3 = c' # post' \<longrightarrow>
                tf_abi_trial incs lib_dirs libs cpp_flags c'
                  \<in> set (test_compiles (snd (get_tf_abi w incs lib_dirs libs cpp_flags log)))
                \<and> (\<forall>r. outcome (try_tf_abi w incs lib_dirs libs cpp_flags) c' = Inr r \<longrightarrow>
                     fst (get_tf_abi w incs lib_dirs libs cpp_flags log) = Inr r))))"
proof (intro conjI)
  show "(flags_to_try w = pre1 @ c1 # post1
       \<and> (\<forall>x\<in>set pre1. \<exists>e. outcome (try_cpp_flags w) x = Inl e \<and> is_Exception e)
       \<and> outcome (try_cpp_flags w) c1 = Inl e1 \<and> \<not> is_compile_or_link_error e1 \<longrightarrow>
     (\<not> is_Exception e1 \<longrightarrow>
        fst (get_cpp_flags w log) = Inl e1
        \<and> test_compiles (snd (get_cpp_flags w log))
            = test_compiles log @ map cpp_trial (pre1 @ [c1]))
     \<and> (is_Exception e1 \<longrightarrow>
          (post1 = [] \<longrightarrow>
             fst (get_cpp_flags w log)
               = Inl (DistutilsPlatformError (Some (cpp_msg_exc @ format_exc w e1))))
          \<and> (\<forall>c' post'. post1 = c' # post' \<longrightarrow>
                cpp_trial c' \<in> set (test_compiles (snd (get_cpp_flags w log)))
                \<and> (\<forall>r. outcome (try_cpp_flags w) c' = Inr r \<longrightarrow> fst (get_cpp_flags w log) = Inr r))))"
    (is "_ \<longrightarrow> ?concl")
  proof (rule impI, elim conjE)
    assume eq: "flags_to_try w = pre1 @ c1 # post1"
      and pre: "\<forall>x\<in>set pre1. \<exists>e. outcome (try_cpp_flags w) x = Inl e \<and> is_Exception e"
      and c: "outcome (try_cpp_flags w) c1 = Inl e1" "\<not> is_compile_or_link_error e1"
    show ?concl
      unfolding get_cpp_flags_def eq
      by (rule probe_loop_other [OF cpp_attempt is_test_compile_trials(1) pre c])
  qed
next
  show "(tf_libs_to_try = pre2 @ c2 # post2
       \<and> (\<forall>x\<in>set pre2. \<exists>e. outcome (try_tf_libs w lib_dirs cpp_flags) x = Inl e \<and> is_Exception e)
       \<and> outcome (try_tf_libs w lib_dirs cpp_flags) c2 = Inl e2 \<and> \<not> is_compile_or_link_error e2 \<longrightarrow>
     (\<not> is_Exception e2 \<longrightarrow>
        fst (get_tf_libs w lib_dirs cpp_flags log) = Inl e2
        \<and> test_compiles (snd (get_tf_libs w lib_dirs cpp_flags log))
            = test_compiles log @ map (tf_libs_trial lib_dirs cpp_flags) (pre2 @ [c2]))
     \<and> (is_Exception e2 \<longrightarrow>
          (post2 = [] \<longrightarrow>
             fst (get_tf_libs w lib_dirs cpp_flags log)
               = Inl (DistutilsPlatformError (Some (tf_libs_msg_exc @ format_exc w e2))))
          \<and> (\<forall>c' post'. post2 = c' # post' \<longrightarrow>
                tf_libs_trial lib_dirs cpp_flags c'
                  \<in> set (test_compiles (snd (get_tf_libs w lib_dirs cpp_flags log)))
                \<and> (\<forall>r. outcome (try_tf_libs w lib_dirs cpp_flags) c' = Inr r \<longrightarrow>
                     fst (get_tf_libs w lib_dirs cpp_flags log) = Inr r))))"
    (is "_ \<longrightarrow> ?concl")
  proof (rule impI, elim conjE)
    assume eq: "tf_libs_to_try = pre2 @ c2 # post2"
      and pre: "\<forall>x\<in>set pre2. \<exists>e. outcome (try_tf_libs w lib_dirs cpp_flags) x = Inl e \<and> is_Exception e"
      and c: "outcome (try_tf_libs w lib_dirs cpp_flags) c2 = Inl e2" "\<not> is_compile_or_link_error e2"
    show ?concl
      unfolding get_tf_libs_def eq
      by (rule probe_loop_other [OF tf_libs_attempt is_test_compile_trials(2) pre c])
  qed
next
  show "(tf_abi_to_try = pre3 @ c3 # post3
       \<and> (\<forall>x\<in>set pre3. \<exists>e. outcome (try_tf_abi w incs lib_dirs libs cpp_flags) x = Inl e \<and> is_Exception e)
       \<and> outcome (try_tf_abi w incs lib_dirs libs cpp_flags) c3 = Inl e3
       \<and> \<not> is_compile_or_link_error e3 \<longrightarrow>
     (\<not> is_Exception e3 \<longrightarrow>
        fst (get_tf_abi w incs lib_dirs libs cpp_flags log) = Inl e3
        \<and> test_compiles (snd (get_tf_abi w incs lib_dirs libs cpp_flags log))
            = test_compiles log @ map (tf_abi_trial incs lib_dirs libs cpp_flags) (pre3 @ [c3]))
     \<and> (is_Exception e3 \<longrightarrow>
          (post3 = [] \<longrightarrow>
             fst (get_tf_abi w incs lib_dirs libs cpp_flags log)
               = Inl (DistutilsPlatformError (Some (tf_abi_msg_exc @ format_exc w e3))))
          \<and> (\<forall>c' post'. post3 = c' # post' \<longrightarrow>
                tf_abi_trial incs lib_dirs libs cpp_flags c'
                  \<in> set (test_compiles (snd (get_tf_abi w incs lib_dirs libs cpp_flags log)))
                \<and> (\<forall>r. outcome (try_tf_abi w incs lib_dirs libs cpp_flags) c' = Inr r \<longrightarrow>
                     fst (get_tf_abi w incs lib_dirs libs cpp_flags log) = Inr r))))"
    (is "_ \<longrightarrow> ?concl")
  proof (rule impI, elim conjE)
    assume eq: "tf_abi_to_try = pre3 @ c3 # post3"
      and pre: "\<forall>x\<in>set pre3. \<exists>e. outcome (try_tf_abi w incs lib_dirs libs cpp_flags) x = Inl e \<and> is_Exception e"
      and c: "outcome (try_tf_abi w incs lib_dirs libs cpp_flags) c3 = Inl e3" "\<not> is_compile_or_link_error e3"
    show ?concl
      unfolding get_tf_abi_def eq
      by (rule probe_loop_other [OF tf_abi_attempt is_test_compile_trials(3) pre c])
  qed
qed

theorem other_exception_caught_witness:
  "cpp_trial [''-std=c++11'', ''-fPIC'', ''-O2'', ''-stdlib=libc++'']
      \<in> set (test_compiles (snd (get_cpp_flags crashing_world [])))
   \<and> fst (get_cpp_flags crashing_world []) = Inr [''-std=c++11'', ''-fPIC'', ''-O2'', ''-stdlib=libc++'']
   \<and> tf_libs_trial [''tf''] [''-O2''] []
      \<in> set (test_compiles (snd (get_tf_libs crashing_world [''tf''] [''-O2''] [])))
   \<and> fst (get_tf_libs crashing_world [''tf''] [''-O2''] []) = Inr []
   \<and> tf_abi_trial [''tf/include''] [''tf''] [] [''-O2''] ''1''
      \<in> set (test_compiles (snd (get_tf_abi crashing_world [''tf/include''] [''tf''] [] [''-O2''] [])))
   \<and> fst (get_tf_abi crashing_world [''tf/include''] [''tf''] [] [''-O2''] [])
      = Inr (cxx11_abi_macro, ''1'')
   \<and> fst (get_cpp_flags hopeless_world [])
      = Inl (DistutilsPlatformError (Some (cpp_msg_exc @ ''Exception: compiler crashed'')))
   \<and> fst (get_cpp_flags interrupted_world []) = Inl (NonException ''interrupted'')
   \<and> test_compiles (snd (get_cpp_flags interrupted_world []))
      = [cpp_trial [''-std=c++11'', ''-fPIC'', ''-O2'']]"
proof -
  have h1: "flags_to_try crashing_world
        = [] @ [''-std=c++11'', ''-fPIC'', ''-O2''] # [[''-std=c++11'', ''-fPIC'', ''-O2'', ''-stdlib=libc++'']]
      \<and> (\<forall>x\<in>set []. \<exists>e. outcome (try_cpp_flags crashing_world) x = Inl e \<and> is_Exception e)
      \<and> outcome (try_cpp_flags crashing_world) [''-std=c++11'', ''-fPIC'', ''-O2'']
          = Inl (OtherException ''compiler crashed'')
      \<and> \<not> is_compile_or_link_error (OtherException ''compiler crashed'')"
    by (simp add: world_defs probe_defs)
  have r1: "outcome (try_cpp_flags crashing_world) [''-std=c++11'', ''-fPIC'', ''-O2'', ''-stdlib=libc++'']
      = Inr [''-std=c++11'', ''-fPIC'', ''-O2'', ''-stdlib=libc++'']"
    by (simp add: world_defs probe_defs)
  have h2: "tf_libs_to_try = [] @ [''tensorflow_framework''] # [[]]
      \<and> (\<forall>x\<in>set []. \<exists>e. outcome (try_tf_libs crashing_world [''tf''] [''-O2'']) x = Inl e \<and> is_Exception e)
      \<and> outcome (try_tf_libs crashing_world [''tf''] [''-O2'']) [''tensorflow_framework'']
          = Inl (OtherException ''linker crashed'')
      \<and> \<not> is_compile_or_link_error (OtherException ''linker crashed'')"
    by (simp add: world_defs probe_defs)
  have r2: "outcome (try_tf_libs crashing_world [''tf''] [''-O2'']) [] = Inr []"
    by (simp add: world_defs probe_defs)
  have h3: "tf_abi_to_try = [] @ ''0'' # [''1'']
      \<and> (\<forall>x\<in>set []. \<exists>e. outcome (try_tf_abi crashing_world [''tf/include''] [''tf''] [] [''-O2'']) x = Inl e
            \<and> is_Exception e)
      \<and> outcome (try_tf_abi crashing_world [''tf/include''] [''tf''] [] [''-O2'']) ''0''
          = Inl (OtherException ''compiler crashed'')
      \<and> \<not> is_compile_or_link_error (OtherException ''compiler crashed'')"
    by (simp add: world_defs probe_defs)
  have r3: "outcome (try_tf_abi crashing_world [''tf/include''] [''tf''] [] [''-O2'']) ''1''
      = Inr (cxx11_abi_macro, ''1'')"
    by (simp add: world_defs probe_defs)
  note T = other_exception_caught [where w = crashing_world and log = "[]"
      and ?pre1.0 = "[]" and ?c1.0 = "[''-std=c++11'', ''-fPIC'', ''-O2'']"
      and ?post1.0 = "[[''-std=c++11'', ''-fPIC'', ''-O2'', ''-stdlib=libc++'']]"
      and ?e1.0 = "OtherException ''compiler crashed''"
      and lib_dirs = "[''tf'']" and cpp_flags = "[''-O2'']"
      and ?pre2.0 = "[]" and ?c2.0 = "[''tensorflow_framework'']" and ?post2.0 = "[[]]"
      and ?e2.0 = "OtherException ''linker crashed''"
      and incs = "[''tf/include'']" and libs = "[]"
      and ?pre3.0 = "[]" and ?c3.0 = "''0''" and ?post3.0 = "[''1'']"
      and ?e3.0 = "OtherException ''compiler crashed''"]
  have h4: "flags_to_try hopeless_world
        = [[''-std=c++11'', ''-fPIC'', ''-O2'']] @ [''-std=c++11'', ''-fPIC'', ''-O2'', ''-stdlib=libc++''] # []
      \<and> (\<forall>x\<in>set [[''-std=c++11'', ''-fPIC'', ''-O2'']].
            \<exists>e. outcome (try_cpp_flags hopeless_world) x = Inl e \<and> is_Exception e)
      \<and> outcome (try_cpp_flags hopeless_world) [''-std=c++11'', ''-fPIC'', ''-O2'', ''-stdlib=libc++'']
          = Inl (OtherException ''compiler crashed'')
      \<and> \<not> is_compile_or_link_error (OtherException ''compiler crashed'')"
    by (simp add: world_defs probe_defs)
  have f4: "format_exc hopeless_world = exn_text" by (simp add: world_defs)
  note T4 = other_exception_caught [where w = hopeless_world and log = "[]"
      and ?pre1.0 = "[[''-std=c++11'', ''-fPIC'', ''-O2'']]"
      and ?c1.0 = "[''-std=c++11'', ''-fPIC'', ''-O2'', ''-stdlib=libc++'']"
      and ?post1.0 = "[]" and ?e1.0 = "OtherException ''compiler crashed''"]
  have h5: "flags_to_try interrupted_world
        = [] @ [''-std=c++11'', ''-fPIC'', ''-O2''] # [[''-std=c++11'', ''-fPIC'', ''-O2'', ''-stdlib=libc++'']]
      \<and> (\<forall>x\<in>set []. \<exists>e. outcome (try_cpp_flags interrupted_world) x = Inl e \<and> is_Exception e)
      \<and> outcome (try_cpp_flags interrupted_world) [''-std=c++11'', ''-fPIC'', ''-O2'']
          = Inl (NonException ''interrupted'')
      \<and> \<not> is_compile_or_link_error (NonException ''interrupted'')"
    by (simp add: world_defs probe_defs)
  note T5 = other_exception_caught [where w = interrupted_world and log = "[]"
      and ?pre1.0 = "[]" and ?c1.0 = "[''-std=c++11'', ''-fPIC'', ''-O2'']"
      and ?post1.0 = "[[''-std=c++11'', ''-fPIC'', ''-O2'', ''-stdlib=libc++'']]"
      and ?e1.0 = "NonException ''interrupted''"]
  have a: "cpp_trial [''-std=c++11'', ''-fPIC'', ''-O2'', ''-stdlib=libc++'']
        \<in> set (test_compiles (snd (get_cpp_flags crashing_world [])))
      \<and> fst (get_cpp_flags crashing_world []) = Inr [''-std=c++11'', ''-fPIC'', ''-O2'', ''-stdlib=libc++'']
      \<and> tf_libs_trial [''tf''] [''-O2''] []
        \<in> set (test_compiles (snd (get_tf_libs crashing_world [''tf''] [''-O2''] [])))
      \<and> fst (get_tf_libs crashing_world [''tf''] [''-O2''] []) = Inr []
      \<and> tf_abi_trial [''tf/include''] [''tf''] [] [''-O2''] ''1''
        \<in> set (test_compiles (snd (get_tf_abi crashing_world [''tf/include''] [''tf''] [] [''-O2''] [])))
      \<and> fst (get_tf_abi crashing_world [''tf/include''] [''tf''] [] [''-O2''] [])
        = Inr (cxx11_abi_macro, ''1'')"
    using T h1 h2 h3 r1 r2 r3 by simp
  have b: "fst (get_cpp_flags hopeless_world [])
      = Inl (DistutilsPlatformError (Some (cpp_msg_exc @ ''Exception: compiler crashed'')))"
    using T4 h4 f4 by simp
  have c: "fst (get_cpp_flags interrupted_world []) = Inl (NonException ''interrupted'')
      \<and> test_compiles (snd (get_cpp_flags interrupted_world []))
          = [cpp_trial [''-std=c++11'', ''-fPIC'', ''-O2'']]"
    using T5 h5 by (simp add: test_compiles_def)
  from a b c show ?thesis by simp
qed

subsection \<open>The version check\<close>

lemma str_lt_lexord:
  "str_lt a b \<longleftrightarrow> (a, b) \<in> lexord {(x, y). (of_char x :: nat) < of_char y}"
proof (induction a b rule: str_lt.induct)
  case (4 x xs y ys)
  have inj: "(of_char x :: nat) = of_char y \<longleftrightarrow> x = y" by simp
  show ?case using 4 inj by auto
qed simp_all

text \<open>
  Claim C10. \<^verbatim>\<open>check_tf_version\<close> compares \<^verbatim>\<open>tf.__version__\<close> with
  \<^verbatim>\<open>'1.1.0'\<close> as strings. It returns normally exactly when the import succeeds, the
  version attribute is there and the version string is not below \<^verbatim>\<open>'1.1.0'\<close> in
  the order \<open>str_lt\<close>. It raises \<^verbatim>\<open>DistutilsPlatformError\<close> exactly when the import
  raises \<^verbatim>\<open>ImportError\<close>, when \<^verbatim>\<open>AttributeError\<close> is raised (by a missing
  version attribute, or inside the import), or when the version string is below
  \<^verbatim>\<open>'1.1.0'\<close>; this is stated for an import that does not itself raise a
  \<^verbatim>\<open>DistutilsPlatformError\<close>, which would pass through unchanged as every other
  exception of the import does. The order \<open>str_lt\<close> is the lexicographic order on the
  character codes, in which \<^verbatim>\<open>'1.1'\<close> is below \<^verbatim>\<open>'1.1.0'\<close>: version 1.1 is
  rejected.
\<close>

theorem check_tf_version_lexicographic:
  "(fst (check_tf_version w log) = Inr ()
      \<longleftrightarrow> (\<exists>tf v. import_tensorflow w = Inr tf \<and> tf_version tf = Some v \<and> \<not> str_lt v ''1.1.0''))
   \<and> ((\<forall>d. import_tensorflow w \<noteq> Inl (DistutilsPlatformError d)) \<longrightarrow>
        ((\<exists>d. fst (check_tf_version w log) = Inl (DistutilsPlatformError d))
          \<longleftrightarrow> (\<exists>m. import_tensorflow w = Inl (ImportError m))
              \<or> (\<exists>m. import_tensorflow w = Inl (AttributeError m))
              \<or> (\<exists>tf. import_tensorflow w = Inr tf \<and> tf_version tf = None)
              \<or> (\<exists>tf v. import_tensorflow w = Inr tf \<and> tf_version tf = Some v \<and> str_lt v ''1.1.0'')))
   \<and> (str_lt a b \<longleftrightarrow> (a, b) \<in> lexord {(x, y). (of_char x :: nat) < of_char y})
   \<and> str_lt ''1.1'' ''1.1.0''
   \<and> (import_tensorflow w = Inr tf \<and> tf_version tf = Some ''1.1'' \<longrightarrow>
        fst (check_tf_version w log) = Inl (DistutilsPlatformError (Some
          ''Your TensorFlow version 1.1 is outdated.  Horovod requires tensorflow>=1.1.0'')))"
proof (intro conjI)
  show "fst (check_tf_version w log) = Inr ()
      \<longleftrightarrow> (\<exists>tf v. import_tensorflow w = Inr tf \<and> tf_version tf = Some v \<and> \<not> str_lt v ''1.1.0'')"
    by (auto simp: check_tf_version_def Let_def split: sum.splits exn.splits option.splits)
  show "(\<forall>d. import_tensorflow w \<noteq> Inl (DistutilsPlatformError d)) \<longrightarrow>
        ((\<exists>d. fst (check_tf_version w log) = Inl (DistutilsPlatformError d))
          \<longleftrightarrow> (\<exists>m. import_tensorflow w = Inl (ImportError m))
              \<or> (\<exists>m. import_tensorflow w = Inl (AttributeError m))
              \<or> (\<exists>tf. import_tensorflow w = Inr tf \<and> tf_version tf = None)
              \<or> (\<exists>tf v. import_tensorflow w = Inr tf \<and> tf_version tf = Some v \<and> str_lt v ''1.1.0''))"
    by (auto simp: check_tf_version_def Let_def split: sum.splits exn.splits option.splits)
  show "str_lt a b \<longleftrightarrow> (a, b) \<in> lexord {(x, y). (of_char x :: nat) < of_char y}"
    by (rule str_lt_lexord)
  show "str_lt ''1.1'' ''1.1.0''" by simp
  show "import_tensorflow w = Inr tf \<and> tf_version tf = Some ''1.1'' \<longrightarrow>
        fst (check_tf_version w log) = Inl (DistutilsPlatformError (Some
          ''Your TensorFlow version 1.1 is outdated.  Horovod requires tensorflow>=1.1.0''))"
    by (simp add: check_tf_version_def Let_def)
qed

theorem check_tf_version_lexicographic_witness:
  "(\<forall>d. import_tensorflow old_version_world \<noteq> Inl (DistutilsPlatformError d))
   \<and> fst (check_tf_version old_version_world []) \<noteq> Inr ()
   \<and> (\<exists>d. fst (check_tf_version old_version_world []) = Inl (DistutilsPlatformError d))
   \<and> fst (check_tf_version old_version_world []) = Inl (DistutilsPlatformError (Some
        ''Your TensorFlow version 1.1 is outdated.  Horovod requires tensorflow>=1.1.0''))"
proof -
  have h: "import_tensorflow old_version_world = Inr (example_tf\<lparr>tf_version := Some ''1.1''\<rparr>)
     \<and> tf_version (example_tf\<lparr>tf_version := Some ''1.1''\<rparr>) = Some ''1.1''"
    by (simp add: world_defs)
  have l: "str_lt ''1.1'' ''1.1.0''" by simp
  note T = check_tf_version_lexicographic [where w = old_version_world and log = "[]"
      and tf = "example_tf\<lparr>tf_version := Some ''1.1''\<rparr>"]
  from T h l show ?thesis by auto
qed

subsection \<open>The record of a run\<close>

text \<open>
  Shape of the record that the baseline probe and the TensorFlow step leave behind: the
  baseline probe adds trial compilations of its own only, the TensorFlow step adds events
  of the TensorFlow step only, the first of them an import of \<^verbatim>\<open>tensorflow\<close>.
\<close>

lemma probe_loop_events:
  assumes "\<And>c l. \<exists>evs. snd (attempt c l) = l @ evs \<and> (\<forall>x\<in>set evs. Q x)"
  shows "\<exists>evs. snd (probe_loop w m1 m2 attempt cs le log) = log @ evs \<and> (\<forall>x\<in>set evs. Q x)"
proof (induction cs arbitrary: le log)
  case Nil
  show ?case by simp
next
  case (Cons c cs)
  obtain r l1 where a: "attempt c log = (r, l1)" by (cases "attempt c log")
  with assms [of c log] obtain evs where evs: "l1 = log @ evs" "\<forall>x\<in>set evs. Q x" by auto
  show ?case
  proof (cases "\<exists>le'. probe_loop w m1 m2 attempt (c # cs) le log = probe_loop w m1 m2 attempt cs le' l1")
    case True
    then obtain le' where "probe_loop w m1 m2 attempt (c # cs) le log = probe_loop w m1 m2 attempt cs le' l1"
      by blast
    moreover from Cons [of le' l1] obtain evs' where
      "snd (probe_loop w m1 m2 attempt cs le' l1) = l1 @ evs'" "\<forall>x\<in>set evs'. Q x" by blast
    ultimately have "snd (probe_loop w m1 m2 attempt (c # cs) le log) = log @ (evs @ evs')
        \<and> (\<forall>x\<in>set (evs @ evs'). Q x)"
      using evs by auto
    then show ?thesis by blast
  next
    case False
    with a have "snd (probe_loop w m1 m2 attempt (c # cs) le log) = l1"
      by (cases r) (auto split: if_splits)
    with evs show ?thesis by auto
  qed
qed

lemma cpp_trial_not_tf: "is_test_compile (cpp_trial c) \<and> \<not> tf_event (cpp_trial c)"
  by (simp add: cpp_trial_def)

lemma get_cpp_flags_events:
  "\<exists>evs. snd (get_cpp_flags w log) = log @ evs \<and> (\<forall>x\<in>set evs. is_test_compile x \<and> \<not> tf_event x)"
  unfolding get_cpp_flags_def
  by (rule probe_loop_events) (simp add: try_cpp_flags_split cpp_trial_not_tf)

lemma get_common_options_events:
  "\<exists>evs. snd (get_common_options w log) = log @ evs \<and> (\<forall>x\<in>set evs. is_test_compile x \<and> \<not> tf_event x)"
  using get_cpp_flags_events [of w log]
  by (auto simp: get_common_options_def split: prod.splits sum.splits)

lemma tf_trials_tf_event:
  "tf_event (tf_libs_trial ld cf c)" "tf_event (tf_abi_trial i ld lb cf v)"
  by (simp_all add: tf_libs_trial_def tf_abi_trial_def)

lemma get_tf_libs_events:
  "\<exists>evs. snd (get_tf_libs w ld cf log) = log @ evs \<and> (\<forall>x\<in>set evs. tf_event x \<and> build_of x = [])"
  unfolding get_tf_libs_def
proof (rule probe_loop_events)
  fix c l
  from try_tf_libs_split [of w ld cf c l] obtain evs where
    "snd (try_tf_libs w ld cf c l) = l @ tf_libs_trial ld cf c # evs" "built evs = []" "\<forall>x\<in>set evs. tf_event x"
    by auto
  then have "snd (try_tf_libs w ld cf c l) = l @ (tf_libs_trial ld cf c # evs)
      \<and> (\<forall>x\<in>set (tf_libs_trial ld cf c # evs). tf_event x \<and> build_of x = [])"
    by (auto simp: tf_trials_tf_event built_def tf_libs_trial_def)
  then show "\<exists>evs. snd (try_tf_libs w ld cf c l) = l @ evs \<and> (\<forall>x\<in>set evs. tf_event x \<and> build_of x = [])"
    by blast
qed

lemma get_tf_abi_events:
  "\<exists>evs. snd (get_tf_abi w i ld lb cf log) = log @ evs \<and> (\<forall>x\<in>set evs. tf_event x \<and> build_of x = [])"
  unfolding get_tf_abi_def
proof (rule probe_loop_events)
  fix c l
  from try_tf_abi_split [of w i ld lb cf c l] obtain evs where
    "snd (try_tf_abi w i ld lb cf c l) = l @ tf_abi_trial i ld lb cf c # evs" "built evs = []" "\<forall>x\<in>set evs. tf_event x"
    by auto
  then have "snd (try_tf_abi w i ld lb cf c l) = l @ (tf_abi_trial i ld lb cf c # evs)
      \<and> (\<forall>x\<in>set (tf_abi_trial i ld lb cf c # evs). tf_event x \<and> build_of x = [])"
    by (auto simp: tf_trials_tf_event built_def tf_abi_trial_def)
  then show "\<exists>evs. snd (try_tf_abi w i ld lb cf c l) = l @ evs \<and> (\<forall>x\<in>set evs. tf_event x \<and> build_of x = [])"
    by blast
qed

lemma get_tf_include_dirs_events:
  "snd (get_tf_include_dirs w log) = log @ [ImportTensorflow]"
  by (simp add: get_tf_include_dirs_def Let_def split: sum.splits)

lemma get_tf_lib_dirs_events:
  "snd (get_tf_lib_dirs w log) = log @ [ImportTensorflow]"
  by (simp add: get_tf_lib_dirs_def Let_def split: sum.splits)

lemma get_tf_flags_fallback_events:
  "\<exists>evs. snd (get_tf_flags_fallback w cf log) = log @ evs \<and> (\<forall>x\<in>set evs. tf_event x \<and> build_of x = [])"
proof -
  obtain r1 l1 where s1: "get_tf_include_dirs w log = (r1, l1)" by (cases "get_tf_include_dirs w log")
  with get_tf_include_dirs_events [of w log] have l1: "l1 = log @ [ImportTensorflow]" by simp
  obtain r2 l2 where s2: "get_tf_lib_dirs w l1 = (r2, l2)" by (cases "get_tf_lib_dirs w l1")
  with get_tf_lib_dirs_events [of w l1] have l2: "l2 = l1 @ [ImportTensorflow]" by simp
  show ?thesis
  proof (cases r1)
    case (Inl e) with s1 l1 show ?thesis by (simp add: get_tf_flags_fallback_def)
  next
    case i: (Inr incs)
    show ?thesis
    proof (cases r2)
      case (Inl e) with i s1 s2 l1 l2 show ?thesis by (simp add: get_tf_flags_fallback_def)
    next
      case d: (Inr dirs)
      obtain r3 l3 where s3: "get_tf_libs w dirs cf l2 = (r3, l3)" by (cases "get_tf_libs w dirs cf l2")
      with get_tf_libs_events [of w dirs cf l2] obtain e3 where
        l3: "l3 = l2 @ e3" "\<forall>x\<in>set e3. tf_event x \<and> build_of x = []" by auto
      show ?thesis
      proof (cases r3)
        case (Inl e) with i d s1 s2 s3 l1 l2 l3 show ?thesis
          by (simp add: get_tf_flags_fallback_def)
      next
        case b: (Inr libs)
        obtain r4 l4 where s4: "get_tf_abi w incs dirs libs cf l3 = (r4, l4)"
          by (cases "get_tf_abi w incs dirs libs cf l3")
        with get_tf_abi_events [of w incs dirs libs cf l3] obtain e4 where
          l4: "l4 = l3 @ e4" "\<forall>x\<in>set e4. tf_event x \<and> build_of x = []" by auto
        have "snd (get_tf_flags_fallback w cf log) = l4"
          using i d b s1 s2 s3 s4 by (cases r4) (auto simp: get_tf_flags_fallback_def Let_def)
        then have "snd (get_tf_flags_fallback w cf log) = log @ ([ImportTensorflow, ImportTensorflow] @ e3 @ e4)
          \<and> (\<forall>x\<in>set ([ImportTensorflow, ImportTensorflow] @ e3 @ e4). tf_event x \<and> build_of x = [])"
          using l1 l2 l3 l4 by auto
        then show ?thesis by blast
      qed
    qed
  qed
qed

lemma get_tf_flags_events:
  "\<exists>evs. snd (get_tf_flags w cf log) = log @ evs \<and> (\<forall>x\<in>set evs. tf_event x \<and> build_of x = [])"
proof -
  from get_tf_flags_fallback_events [of w cf "log @ [ImportTensorflow]"] obtain evs where
    f: "snd (get_tf_flags_fallback w cf (log @ [ImportTensorflow])) = log @ ([ImportTensorflow] @ evs)"
      "\<forall>x\<in>set ([ImportTensorflow] @ evs). tf_event x \<and> build_of x = []" by auto
  have "snd (get_tf_flags w cf log) = log @ [ImportTensorflow]
      \<or> snd (get_tf_flags w cf log) = snd (get_tf_flags_fallback w cf (log @ [ImportTensorflow]))"
    by (auto simp: get_tf_flags_def Let_def split: sum.splits exn.splits)
  then show ?thesis
  proof
    assume "snd (get_tf_flags w cf log) = log @ [ImportTensorflow]"
    then have "snd (get_tf_flags w cf log) = log @ [ImportTensorflow]
      \<and> (\<forall>x\<in>set [ImportTensorflow]. tf_event x \<and> build_of x = [])" by simp
    then show ?thesis by blast
  next
    assume "snd (get_tf_flags w cf log) = snd (get_tf_flags_fallback w cf (log @ [ImportTensorflow]))"
    with f show ?thesis by metis
  qed
qed

lemma check_tf_version_events:
  "snd (check_tf_version w log) = log @ [ImportTensorflow]"
  by (simp add: check_tf_version_def Let_def split: sum.splits exn.splits option.splits)

lemma ext_names [simp]:
  "ext_name (common_extension opts abi) = ''jpeg2dct.common.common_lib''"
  "ext_name (numpy_extension opts abi inc) = ''jpeg2dct.numpy._dctfromjpg_wrapper''"
  "ext_name (tf_extension opts cf lf) = ''jpeg2dct.tensorflow.tf_lib''"
  "ext_name common_lib = ''jpeg2dct.common.common_lib''"
  "ext_name numpy_lib = ''jpeg2dct.numpy._dctfromjpg_wrapper''"
  "ext_name tf_lib = ''jpeg2dct.tensorflow.tf_lib''"
  by (simp_all add: common_extension_def numpy_extension_def tf_extension_def common_lib_def
      numpy_lib_def tf_lib_def Extension_def)

lemma ext_args [simp]:
  "extra_compile_args (common_extension opts abi) = COMPILE_FLAGS opts @ abi"
  "extra_compile_args (numpy_extension opts abi inc) = COMPILE_FLAGS opts @ abi"
  "extra_compile_args (tf_extension opts cf lf) = COMPILE_FLAGS opts @ cf"
  "extra_link_args (common_extension opts abi) = LINK_FLAGS opts"
  "extra_link_args (numpy_extension opts abi inc) = LINK_FLAGS opts"
  "extra_link_args (tf_extension opts cf lf) = LINK_FLAGS opts @ lf"
  by (simp_all add: common_extension_def numpy_extension_def tf_extension_def)


lemma build_tf_extension_events:
  "\<exists>evs. snd (build_tf_extension w opts log) = log @ ImportTensorflow # evs \<and> (\<forall>x\<in>set evs. tf_event x)"
proof -
  obtain r1 l1 where s1: "check_tf_version w log = (r1, l1)" by (cases "check_tf_version w log")
  with check_tf_version_events [of w log] have l1: "l1 = log @ [ImportTensorflow]" by simp
  obtain r2 l2 where s2: "get_tf_flags w (COMPILE_FLAGS opts) l1 = (r2, l2)"
    by (cases "get_tf_flags w (COMPILE_FLAGS opts) l1")
  with get_tf_flags_events [of w "COMPILE_FLAGS opts" l1] obtain e2 where
    l2: "l2 = l1 @ e2" "\<forall>x\<in>set e2. tf_event x \<and> build_of x = []" by auto
  show ?thesis
  proof (cases r1)
    case (Inl e)
    with s1 l1 show ?thesis by (simp add: build_tf_extension_def)
  next
    case u: (Inr u)
    show ?thesis
    proof (cases r2)
      case (Inl e)
      with u s1 s2 l1 l2 show ?thesis by (simp add: build_tf_extension_def)
    next
      case (Inr p)
      obtain cf lf where p: "p = (cf, lf)" by (cases p)
      with Inr u s1 s2 have "snd (build_tf_extension w opts log) = l2 @ [BuildExtension (tf_extension opts cf lf)]"
        by (simp add: build_tf_extension_def Let_def split: option.splits)
      with l1 l2 have "snd (build_tf_extension w opts log)
          = log @ ImportTensorflow # (e2 @ [BuildExtension (tf_extension opts cf lf)])
        \<and> (\<forall>x\<in>set (e2 @ [BuildExtension (tf_extension opts cf lf)]). tf_event x)"
        by simp
      then show ?thesis by blast
    qed
  qed
qed

lemma build_tf_extension_sysconfig:
  assumes "import_tensorflow w = Inr tf" "tf_version tf = Some v" "\<not> str_lt v ''1.1.0''"
    "get_compile_flags tf = Inr cf" "get_link_flags tf = Inr lf"
  shows "build_tf_extension w opts log =
     ((case build_extension w (tf_extension opts cf lf) of
         None \<Rightarrow> Inr (abi_flags_of cf) | Some e \<Rightarrow> Inl e),
      log @ [ImportTensorflow, ImportTensorflow, BuildExtension (tf_extension opts cf lf)])"
  using assms
  by (simp add: build_tf_extension_def check_tf_version_def get_tf_flags_def Let_def
      split: option.splits)

lemma build_extensions_result:
  assumes "get_common_options w log = (Inr opts, log1)"
    and "tf_step w opts log1 = (Inr (abi, bp), log2)"
    and "build_extension w (common_extension opts abi) = None" "import_numpy w = None"
    and "numpy_get_include w = Inr inc"
  shows "fst (build_extensions w log) =
     (case build_extension w (numpy_extension opts abi inc) of None \<Rightarrow> Inr () | Some e \<Rightarrow> Inl e)"
  using assms
  by (simp add: build_extensions_def build_common_extension_def build_numpy_extension_def Let_def
      split: option.splits sum.splits)

lemma built_test_compiles:
  "\<forall>x\<in>set evs. is_test_compile x \<and> \<not> tf_event x \<Longrightarrow> built evs = [] \<and> filter tf_event evs = []"
  by (induction evs) (auto simp: built_def elim: is_test_compile.elims)

lemma built_as_tf_events:
  "\<forall>x\<in>set evs. tf_event x \<Longrightarrow> n \<noteq> ''jpeg2dct.tensorflow.tf_lib'' \<Longrightarrow> built_as n evs = []"
proof (induction evs)
  case Nil
  show ?case by (simp add: built_as_def built_def)
next
  case (Cons x evs)
  then have "built_as n evs = []" by simp
  moreover from Cons.prems have "filter (\<lambda>y. ext_name y = n) (build_of x) = []"
    by (cases x) auto
  ultimately show ?case by (simp add: built_as_def built_def)
qed


lemma abi_flags_of_append [simp]: "abi_flags_of (xs @ ys) = abi_flags_of xs @ abi_flags_of ys"
  by (simp add: abi_flags_of_def)

lemma abi_flags_of_idem [simp]: "abi_flags_of (abi_flags_of xs) = abi_flags_of xs"
  by (simp add: abi_flags_of_def)

lemma abi_flags_of_candidates:
  "c \<in> set (flags_to_try w) \<Longrightarrow> abi_flags_of c = []"
  by (auto simp: flags_to_try_def default_flags_def abi_flags_of_def split: if_splits)

lemma get_common_options_Inr:
  assumes "get_common_options w log = (Inr opts, log1)"
  shows "COMPILE_FLAGS opts \<in> set (flags_to_try w) \<and> abi_flags_of (COMPILE_FLAGS opts) = []
    \<and> LINK_FLAGS opts = [] \<and> INCLUDES opts = get_conda_include_dir w"
proof -
  from assms obtain r where r: "get_cpp_flags w log = (Inr r, log1)" "COMPILE_FLAGS opts = r"
     "LINK_FLAGS opts = []" "INCLUDES opts = get_conda_include_dir w"
    by (auto simp: get_common_options_def split: prod.splits sum.splits)
  from get_cpp_flags_sound [OF r(1)] have "r \<in> set (flags_to_try w)" by auto
  with r abi_flags_of_candidates [of r w] show ?thesis by simp
qed

subsection \<open>The include directory of the prefix\<close>

text \<open>
  Claim C9 as stated fails. The claim says that no directory is contributed to the baseline
  include list when \<^verbatim>\<open>CONDA_PREFIX\<close> is unset. The script reads the variable with
  the default \<^verbatim>\<open>'.'\<close>, so the list then holds \<^verbatim>\<open>'./include'\<close>, as in
  \<open>example_world\<close>, whose environment is empty.
\<close>

theorem conda_include_dir_counterexample:
  "environ example_world ''CONDA_PREFIX'' = None
   \<and> fst (get_common_options example_world [])
     = Inr \<lparr>MACROS = [], INCLUDES = [''./include''], SOURCES = [],
            COMPILE_FLAGS = [''-std=c++11'', ''-fPIC'', ''-O2''], LINK_FLAGS = [],
            LIBRARY_DIRS = [], LIBRARIES = []\<rparr>"
  by (simp add: world_defs probe_defs get_common_options_def get_conda_include_dir_def os_path_join_def)

text \<open>
  Claim C9, as amended. The baseline include list always holds exactly one directory, the
  \<^verbatim>\<open>include\<close> directory of the prefix that \<^verbatim>\<open>CONDA_PREFIX\<close> declares when the
  variable is set, and \<^verbatim>\<open>'./include'\<close> when it is unset.
\<close>

theorem conda_include_dir_always:
  assumes "get_common_options w log = (Inr opts, log')"
  shows "(environ w ''CONDA_PREFIX'' = None \<longrightarrow> INCLUDES opts = [''./include''])
    \<and> (\<forall>p. environ w ''CONDA_PREFIX'' = Some p \<longrightarrow> INCLUDES opts = [os_path_join p ''include''])"
  using get_common_options_Inr [OF assms]
  by (simp add: get_conda_include_dir_def os_path_join_def)

theorem conda_include_dir_always_witness:
  "environ example_world ''CONDA_PREFIX'' = None
   \<and> get_common_options example_world []
     = (Inr \<lparr>MACROS = [], INCLUDES = [''./include''], SOURCES = [],
            COMPILE_FLAGS = [''-std=c++11'', ''-fPIC'', ''-O2''], LINK_FLAGS = [],
            LIBRARY_DIRS = [], LIBRARIES = []\<rparr>, [cpp_trial [''-std=c++11'', ''-fPIC'', ''-O2'']])
   \<and> environ conda_world ''CONDA_PREFIX'' = Some ''/opt/conda''
   \<and> get_common_options conda_world []
     = (Inr \<lparr>MACROS = [], INCLUDES = [''/opt/conda/include''], SOURCES = [],
            COMPILE_FLAGS = [''-std=c++11'', ''-fPIC'', ''-O2''], LINK_FLAGS = [],
            LIBRARY_DIRS = [], LIBRARIES = []\<rparr>, [cpp_trial [''-std=c++11'', ''-fPIC'', ''-O2'']])
   \<and> [''/opt/conda/include''] = [os_path_join ''/opt/conda'' ''include'']"
proof -
  have h1: "get_common_options example_world []
     = (Inr \<lparr>MACROS = [], INCLUDES = [''./include''], SOURCES = [],
            COMPILE_FLAGS = [''-std=c++11'', ''-fPIC'', ''-O2''], LINK_FLAGS = [],
            LIBRARY_DIRS = [], LIBRARIES = []\<rparr>, [cpp_trial [''-std=c++11'', ''-fPIC'', ''-O2'']])"
    by (simp add: world_defs probe_defs get_common_options_def get_conda_include_dir_def os_path_join_def)
  have e1: "environ example_world ''CONDA_PREFIX'' = None" by (simp add: world_defs)
  have h2: "get_common_options conda_world []
     = (Inr \<lparr>MACROS = [], INCLUDES = [''/opt/conda/include''], SOURCES = [],
            COMPILE_FLAGS = [''-std=c++11'', ''-fPIC'', ''-O2''], LINK_FLAGS = [],
            LIBRARY_DIRS = [], LIBRARIES = []\<rparr>, [cpp_trial [''-std=c++11'', ''-fPIC'', ''-O2'']])"
    by (simp add: world_defs probe_defs get_common_options_def get_conda_include_dir_def os_path_join_def)
  have e2: "environ conda_world ''CONDA_PREFIX'' = Some ''/opt/conda''" by (simp add: world_defs)
  from conda_include_dir_always [OF h1] conda_include_dir_always [OF h2] e1 e2 h1 h2
  show ?thesis by simp
qed

subsection \<open>A required framework that cannot be built\<close>

lemma names_differ:
  "ext_name common_lib \<noteq> ''jpeg2dct.tensorflow.tf_lib''"
  "ext_name numpy_lib \<noteq> ''jpeg2dct.tensorflow.tf_lib''"
  "ext_name common_lib \<noteq> ext_name numpy_lib"
  by simp_all

lemma before_builds:
  assumes "get_common_options w [] = (Inr opts, log1)"
  shows "built log1 = [] \<and> filter tf_event log1 = [] \<and> ImportNumpy \<notin> set log1
    \<and> (\<forall>s. Print s \<notin> set log1)"
proof -
  from get_common_options_events [of w "[]"] assms obtain evs where
    e: "log1 = evs" "\<forall>x\<in>set evs. is_test_compile x \<and> \<not> tf_event x" by auto
  from built_test_compiles [OF e(2)] e show ?thesis by auto
qed

lemma tf_events_only:
  assumes "\<forall>x\<in>set evs. tf_event x"
  shows "built_as (ext_name common_lib) evs = [] \<and> built_as (ext_name numpy_lib) evs = []
    \<and> ImportNumpy \<notin> set evs \<and> (\<forall>s. Print s \<notin> set evs)"
  using built_as_tf_events [OF assms] assms by auto

text \<open>
  Claim C4. Let the baseline options be computed and the TensorFlow step be attempted
  (\<^verbatim>\<open>JPEG2DCT_WITHOUT_TENSORFLOW\<close> is not set to a non-empty value). If
  \<^verbatim>\<open>build_tf_extension\<close> raises and \<^verbatim>\<open>JPEG2DCT_WITH_TENSORFLOW\<close> is set to a
  non-empty value, \<^verbatim>\<open>build_extensions\<close> raises the same exception, and the run ends
  there: the core library and the numpy wrapper have not been handed to
  \<^verbatim>\<open>build_extension\<close>, and \<^verbatim>\<open>numpy\<close> has not been imported.
\<close>

theorem required_framework_failure_is_fatal:
  assumes "get_common_options w [] = (Inr opts, log1)"
    and "\<not> env_true (environ w) ''JPEG2DCT_WITHOUT_TENSORFLOW''"
    and "build_tf_extension w opts log1 = (Inl e, log2)"
    and "env_true (environ w) ''JPEG2DCT_WITH_TENSORFLOW''"
  shows "build_extensions w [] = (Inl e, log2)
    \<and> built_as (ext_name common_lib) log2 = []
    \<and> built_as (ext_name numpy_lib) log2 = []
    \<and> ImportNumpy \<notin> set log2"
proof -
  have r: "build_extensions w [] = (Inl e, log2)"
    using assms by (simp add: build_extensions_def tf_step_def)
  from build_tf_extension_events [of w opts log1] assms(3) obtain evs where
    evs: "log2 = log1 @ ImportTensorflow # evs" "\<forall>x\<in>set (ImportTensorflow # evs). tf_event x" by auto
  from before_builds [OF assms(1)] have b: "built log1 = []" "ImportNumpy \<notin> set log1" by simp_all
  from b(1) have b1: "built_as n log1 = []" for n by (simp add: built_as_def)
  from tf_events_only [OF evs(2)] evs(1) b b1 r show ?thesis by simp
qed

lemma required_world_options:
  "get_common_options required_world []
     = (Inr \<lparr>MACROS = [], INCLUDES = [''./include''], SOURCES = [],
            COMPILE_FLAGS = [''-std=c++11'', ''-fPIC'', ''-O2''], LINK_FLAGS = [],
            LIBRARY_DIRS = [], LIBRARIES = []\<rparr>, [cpp_trial [''-std=c++11'', ''-fPIC'', ''-O2'']])"
  by (simp add: world_defs probe_defs get_common_options_def get_conda_include_dir_def os_path_join_def)

theorem required_framework_failure_is_fatal_witness:
  "build_extensions required_world []
     = (Inl (DistutilsPlatformError (Some (''import tensorflow failed, is it installed?''
          @ [CHR 0x0A, CHR 0x0A] @ ''ImportError: No module named tensorflow''))),
        [cpp_trial [''-std=c++11'', ''-fPIC'', ''-O2''], ImportTensorflow])
   \<and> built_as (ext_name common_lib) [cpp_trial [''-std=c++11'', ''-fPIC'', ''-O2''], ImportTensorflow] = []
   \<and> built_as (ext_name numpy_lib) [cpp_trial [''-std=c++11'', ''-fPIC'', ''-O2''], ImportTensorflow] = []"
proof -
  have h2: "\<not> env_true (environ required_world) ''JPEG2DCT_WITHOUT_TENSORFLOW''"
    by (simp add: world_defs env_true_def)
  have h3: "build_tf_extension required_world
       \<lparr>MACROS = [], INCLUDES = [''./include''], SOURCES = [],
            COMPILE_FLAGS = [''-std=c++11'', ''-fPIC'', ''-O2''], LINK_FLAGS = [],
            LIBRARY_DIRS = [], LIBRARIES = []\<rparr> [cpp_trial [''-std=c++11'', ''-fPIC'', ''-O2'']]
     = (Inl (DistutilsPlatformError (Some (''import tensorflow failed, is it installed?''
          @ [CHR 0x0A, CHR 0x0A] @ ''ImportError: No module named tensorflow''))),
        [cpp_trial [''-std=c++11'', ''-fPIC'', ''-O2''], ImportTensorflow])"
    by (simp add: world_defs build_tf_extension_def check_tf_version_def)
  have h4: "env_true (environ required_world) ''JPEG2DCT_WITH_TENSORFLOW''"
    by (simp add: world_defs env_true_def)
  from required_framework_failure_is_fatal [OF required_world_options h2 h3 h4]
  show ?thesis by simp
qed

subsection \<open>The two unconditional builds\<close>

lemma built_as_Cons_build:
  "built_as n (BuildExtension x # evs) = (if ext_name x = n then x # built_as n evs else built_as n evs)"
  by (simp add: built_as_def built_def)

lemma built_as_Cons_other [simp]:
  "built_as n (ImportNumpy # evs) = built_as n evs"
  "built_as n (ImportTensorflow # evs) = built_as n evs"
  "built_as n (Print s # evs) = built_as n evs"
  "built_as n [] = []"
  by (simp_all add: built_as_def built_def)

text \<open>The part of the record that the two unconditional builds add.\<close>

lemma final_builds:
  assumes "get_common_options w [] = (Inr opts, log1)"
    and "tf_step w opts log1 = (Inr (abi, bp), log2)"
  shows "built_as (ext_name common_lib) (snd (build_extensions w []))
           = built_as (ext_name common_lib) log2 @ [common_extension opts abi]"
    and "build_extension w (common_extension opts abi) = None \<Longrightarrow> import_numpy w = None
           \<Longrightarrow> numpy_get_include w = Inr inc
           \<Longrightarrow> built_as (ext_name numpy_lib) (snd (build_extensions w []))
                 = built_as (ext_name numpy_lib) log2 @ [numpy_extension opts abi inc]"
    and "built_as (ext_name tf_lib) (snd (build_extensions w [])) = built_as (ext_name tf_lib) log2"
    and "filter tf_event (snd (build_extensions w [])) = filter tf_event log2"
    and "set log2 \<subseteq> set (snd (build_extensions w []))"
proof -
  have l: "snd (build_extensions w []) =
      log2 @ BuildExtension (common_extension opts abi) # tl"
    if "tl = (case build_extension w (common_extension opts abi) of
                Some e \<Rightarrow> []
              | None \<Rightarrow> ImportNumpy #
                  (case import_numpy w of
                     Some e \<Rightarrow> []
                   | None \<Rightarrow>
                       (case numpy_get_include w of
                          Inl e \<Rightarrow> []
                        | Inr inc \<Rightarrow> [BuildExtension (numpy_extension opts abi inc)])))" for tl
    using assms that
    by (simp add: build_extensions_def build_common_extension_def build_numpy_extension_def Let_def
        split: option.splits sum.splits)
  define tl where "tl = (case build_extension w (common_extension opts abi) of
                Some e \<Rightarrow> []
              | None \<Rightarrow> ImportNumpy #
                  (case import_numpy w of
                     Some e \<Rightarrow> []
                   | None \<Rightarrow>
                       (case numpy_get_include w of
                          Inl e \<Rightarrow> []
                        | Inr inc \<Rightarrow> [BuildExtension (numpy_extension opts abi inc)])))"
  note s = l [OF tl_def]
  have c: "built_as (ext_name common_lib) tl = []"
    by (simp add: tl_def built_as_Cons_build split: option.splits sum.splits)
  have t: "built_as (ext_name tf_lib) tl = []" "filter tf_event tl = []"
    by (simp_all add: tl_def built_as_Cons_build split: option.splits sum.splits)
  show "built_as (ext_name common_lib) (snd (build_extensions w []))
           = built_as (ext_name common_lib) log2 @ [common_extension opts abi]"
    using c by (simp add: s built_as_Cons_build)
  show "built_as (ext_name numpy_lib) (snd (build_extensions w []))
          = built_as (ext_name numpy_lib) log2 @ [numpy_extension opts abi inc]"
    if "build_extension w (common_extension opts abi) = None" "import_numpy w = None"
      "numpy_get_include w = Inr inc"
    using that by (simp add: s tl_def built_as_Cons_build)
  show "built_as (ext_name tf_lib) (snd (build_extensions w [])) = built_as (ext_name tf_lib) log2"
    using t by (simp add: s built_as_Cons_build)
  show "filter tf_event (snd (build_extensions w [])) = filter tf_event log2"
    using t by (simp add: s)
  show "set log2 \<subseteq> set (snd (build_extensions w []))"
    by (auto simp: s)
qed

lemmas run_defs = build_extensions_def get_common_options_def get_conda_include_dir_def
  os_path_join_def tf_step_def env_true_def build_tf_extension_def check_tf_version_def
  get_tf_flags_def get_tf_flags_fallback_def get_tf_include_dirs_def get_tf_lib_dirs_def
  build_common_extension_def build_numpy_extension_def common_extension_def numpy_extension_def
  tf_extension_def abi_flags_of_def example_options_def legacy_options_def info_msg_def nl_def
  cxx11_abi_macro_def

lemma example_world_run:
  "build_extensions example_world [] =
     (Inr (),
      [cpp_trial [''-std=c++11'', ''-fPIC'', ''-O2''], ImportTensorflow, ImportTensorflow,
       BuildExtension (tf_extension example_options [''-Iinc''] [''-Lfw'', ''-lfw'']),
       BuildExtension (common_extension example_options []),
       ImportNumpy,
       BuildExtension (numpy_extension example_options [] ''numpy/core/include'')])"
  by (simp add: world_defs probe_defs run_defs)

lemma example_world_options:
  "get_common_options example_world [] =
     (Inr example_options, [cpp_trial [''-std=c++11'', ''-fPIC'', ''-O2'']])"
  by (simp add: world_defs probe_defs run_defs)

lemma no_tf_world_options:
  "get_common_options no_tf_world [] =
     (Inr example_options, [cpp_trial [''-std=c++11'', ''-fPIC'', ''-O2'']])"
  by (simp add: world_defs probe_defs run_defs)

lemma disabled_world_options:
  "get_common_options disabled_world [] =
     (Inr example_options, [cpp_trial [''-std=c++11'', ''-fPIC'', ''-O2'']])"
  by (simp add: world_defs probe_defs run_defs)



lemma no_tf_world_tf:
  "build_tf_extension no_tf_world example_options [cpp_trial [''-std=c++11'', ''-fPIC'', ''-O2'']]
     = (Inl (DistutilsPlatformError (Some (''import tensorflow failed, is it installed?''
          @ [CHR 0x0A, CHR 0x0A] @ ''ImportError: No module named tensorflow''))),
        [cpp_trial [''-std=c++11'', ''-fPIC'', ''-O2''], ImportTensorflow])"
  by (simp add: world_defs probe_defs run_defs)

text \<open>
  Claim C5. Let the baseline options be computed and the TensorFlow step be attempted. If
  \<^verbatim>\<open>build_tf_extension\<close> raises and \<^verbatim>\<open>JPEG2DCT_WITH_TENSORFLOW\<close> is unset (or
  empty), the run prints the notice followed by the traceback of the exception, and goes
  on: the core library is handed to \<^verbatim>\<open>build_extension\<close>, once, with the baseline
  compile flags and nothing appended (the ABI flag list is empty, and the baseline flags
  themselves mention no ABI macro). If that build succeeds and \<^verbatim>\<open>numpy\<close> can be
  imported, the numpy wrapper is handed to \<^verbatim>\<open>build_extension\<close>, once, with the same
  flags, and the run ends as that build ends.
\<close>

theorem optional_framework_failure_is_skipped:
  assumes "get_common_options w [] = (Inr opts, log1)"
    and "\<not> env_true (environ w) ''JPEG2DCT_WITHOUT_TENSORFLOW''"
    and "build_tf_extension w opts log1 = (Inl e, log2)"
    and "\<not> env_true (environ w) ''JPEG2DCT_WITH_TENSORFLOW''"
  shows "Print (info_msg @ format_exc w e) \<in> set (snd (build_extensions w []))
    \<and> built_as (ext_name common_lib) (snd (build_extensions w [])) = [common_extension opts []]
    \<and> extra_compile_args (common_extension opts []) = COMPILE_FLAGS opts
    \<and> abi_flags_of (COMPILE_FLAGS opts) = []
    \<and> (build_extension w (common_extension opts []) = None \<and> import_numpy w = None
         \<and> numpy_get_include w = Inr inc \<longrightarrow>
       built_as (ext_name numpy_lib) (snd (build_extensions w [])) = [numpy_extension opts [] inc]
       \<and> extra_compile_args (numpy_extension opts [] inc) = COMPILE_FLAGS opts
       \<and> fst (build_extensions w [])
           = (case build_extension w (numpy_extension opts [] inc) of
                None \<Rightarrow> Inr () | Some e' \<Rightarrow> Inl e'))"
proof -
  have t: "tf_step w opts log1 = (Inr ([], [False]), log2 @ [Print (info_msg @ format_exc w e)])"
    using assms by (simp add: tf_step_def)
  from build_tf_extension_events [of w opts log1] assms(3) obtain evs where
    evs: "log2 = log1 @ ImportTensorflow # evs" "\<forall>x\<in>set (ImportTensorflow # evs). tf_event x" by auto
  from before_builds [OF assms(1)] have "built log1 = []" by simp
  then have b1: "built_as n log1 = []" for n by (simp add: built_as_def)
  from tf_events_only [OF evs(2)] evs(1) b1
  have b2: "built_as (ext_name common_lib) log2 = []" "built_as (ext_name numpy_lib) log2 = []"
    by simp_all
  note f = final_builds [OF assms(1) t]
  have p: "Print (info_msg @ format_exc w e) \<in> set (snd (build_extensions w []))"
    using f(5) by auto
  have c: "built_as (ext_name common_lib) (snd (build_extensions w [])) = [common_extension opts []]"
    using f(1) b2 by simp
  have n: "built_as (ext_name numpy_lib) (snd (build_extensions w [])) = [numpy_extension opts [] inc]"
    if "build_extension w (common_extension opts []) = None" "import_numpy w = None"
      "numpy_get_include w = Inr inc"
    using f(2) [OF that] b2 by simp
  have r: "fst (build_extensions w [])
           = (case build_extension w (numpy_extension opts [] inc) of
                None \<Rightarrow> Inr () | Some e' \<Rightarrow> Inl e')"
    if "build_extension w (common_extension opts []) = None" "import_numpy w = None"
      "numpy_get_include w = Inr inc"
    using build_extensions_result [OF assms(1) t that] .
  from get_common_options_Inr [OF assms(1)] have a: "abi_flags_of (COMPILE_FLAGS opts) = []"
    by simp
  from p c n r a show ?thesis by simp
qed

theorem optional_framework_failure_is_skipped_witness:
  "Print (info_msg @ ''DistutilsPlatformError: import tensorflow failed, is it installed?''
       @ [CHR 0x0A, CHR 0x0A] @ ''ImportError: No module named tensorflow'')
     \<in> set (snd (build_extensions no_tf_world []))
   \<and> built_as (ext_name common_lib) (snd (build_extensions no_tf_world []))
       = [common_extension example_options []]
   \<and> extra_compile_args (common_extension example_options []) = [''-std=c++11'', ''-fPIC'', ''-O2'']
   \<and> built_as (ext_name numpy_lib) (snd (build_extensions no_tf_world []))
       = [numpy_extension example_options [] ''numpy/core/include'']
   \<and> extra_compile_args (numpy_extension example_options [] ''numpy/core/include'')
       = [''-std=c++11'', ''-fPIC'', ''-O2'']
   \<and> fst (build_extensions no_tf_world []) = Inr ()"
proof -
  have h2: "\<not> env_true (environ no_tf_world) ''JPEG2DCT_WITHOUT_TENSORFLOW''"
    by (simp add: world_defs env_true_def)
  have h4: "\<not> env_true (environ no_tf_world) ''JPEG2DCT_WITH_TENSORFLOW''"
    by (simp add: world_defs env_true_def)
  have b: "build_extension no_tf_world (common_extension example_options []) = None"
    "import_numpy no_tf_world = None" "numpy_get_include no_tf_world = Inr ''numpy/core/include''"
    "build_extension no_tf_world (numpy_extension example_options [] ''numpy/core/include'') = None"
    by (simp_all add: world_defs)
  have f: "format_exc no_tf_world = exn_text" by (simp add: world_defs)
  have o: "COMPILE_FLAGS example_options = [''-std=c++11'', ''-fPIC'', ''-O2'']"
    by (simp add: example_options_def)
  from optional_framework_failure_is_skipped [OF no_tf_world_options h2 no_tf_world_tf h4,
      of "''numpy/core/include''"] b f o
  show ?thesis by simp
qed

text \<open>
  Claim C8. If \<^verbatim>\<open>JPEG2DCT_WITHOUT_TENSORFLOW\<close> is set to a non-empty value, the run
  records no event of the TensorFlow step at all: no import of \<^verbatim>\<open>tensorflow\<close>, no
  trial compilation of a TensorFlow probe, no load through the framework's loader and no
  build of the plugin. Since every call of \<^verbatim>\<open>build_tf_extension\<close> and of
  \<^verbatim>\<open>get_tf_flags\<close> records an import of \<^verbatim>\<open>tensorflow\<close> first, neither has been
  called. The core library and the numpy wrapper are built as in C5, with an empty ABI
  flag list.
\<close>

theorem disabled_framework_is_never_probed:
  assumes "get_common_options w [] = (Inr opts, log1)"
    and "env_true (environ w) ''JPEG2DCT_WITHOUT_TENSORFLOW''"
  shows "filter tf_event (snd (build_extensions w [])) = []
    \<and> (\<forall>opts' log. \<exists>evs. snd (build_tf_extension w opts' log) = log @ ImportTensorflow # evs)
    \<and> (\<forall>cpp_flags log. \<exists>evs. snd (get_tf_flags w cpp_flags log) = log @ ImportTensorflow # evs)
    \<and> built_as (ext_name common_lib) (snd (build_extensions w [])) = [common_extension opts []]
    \<and> extra_compile_args (common_extension opts []) = COMPILE_FLAGS opts
    \<and> abi_flags_of (COMPILE_FLAGS opts) = []
    \<and> (build_extension w (common_extension opts []) = None \<and> import_numpy w = None
         \<and> numpy_get_include w = Inr inc \<longrightarrow>
       built_as (ext_name numpy_lib) (snd (build_extensions w [])) = [numpy_extension opts [] inc]
       \<and> extra_compile_args (numpy_extension opts [] inc) = COMPILE_FLAGS opts
       \<and> fst (build_extensions w [])
           = (case build_extension w (numpy_extension opts [] inc) of
                None \<Rightarrow> Inr () | Some e' \<Rightarrow> Inl e'))"
proof -
  have t: "tf_step w opts log1 = (Inr ([], []), log1)"
    using assms by (simp add: tf_step_def)
  from before_builds [OF assms(1)] have b: "built log1 = []" "filter tf_event log1 = []" by simp_all
  then have b1: "built_as n log1 = []" for n by (simp add: built_as_def)
  note f = final_builds [OF assms(1) t]
  have z: "filter tf_event (snd (build_extensions w [])) = []"
    using f(4) b by simp
  have i: "\<exists>evs. snd (build_tf_extension w opts' log) = log @ ImportTensorflow # evs" for opts' log
    using build_tf_extension_events [of w opts' log] by blast
  have g: "\<exists>evs. snd (get_tf_flags w cpp_flags log) = log @ ImportTensorflow # evs" for cpp_flags log
  proof -
    from get_tf_flags_fallback_events [of w cpp_flags "log @ [ImportTensorflow]"]
    obtain evs where "snd (get_tf_flags_fallback w cpp_flags (log @ [ImportTensorflow]))
        = log @ ImportTensorflow # evs" by auto
    moreover have "snd (get_tf_flags w cpp_flags log) = log @ [ImportTensorflow]
      \<or> snd (get_tf_flags w cpp_flags log)
          = snd (get_tf_flags_fallback w cpp_flags (log @ [ImportTensorflow]))"
      by (auto simp: get_tf_flags_def Let_def split: sum.splits exn.splits)
    ultimately show ?thesis by auto
  qed
  have c: "built_as (ext_name common_lib) (snd (build_extensions w [])) = [common_extension opts []]"
    using f(1) b1 by simp
  have n: "built_as (ext_name numpy_lib) (snd (build_extensions w [])) = [numpy_extension opts [] inc]"
    if "build_extension w (common_extension opts []) = None" "import_numpy w = None"
      "numpy_get_include w = Inr inc"
    using f(2) [OF that] b1 by simp
  have r: "fst (build_extensions w [])
           = (case build_extension w (numpy_extension opts [] inc) of
                None \<Rightarrow> Inr () | Some e' \<Rightarrow> Inl e')"
    if "build_extension w (common_extension opts []) = None" "import_numpy w = None"
      "numpy_get_include w = Inr inc"
    using build_extensions_result [OF assms(1) t that] .
  from get_common_options_Inr [OF assms(1)] have a: "abi_flags_of (COMPILE_FLAGS opts) = []"
    by simp
  from z i g c n r a show ?thesis by simp
qed

theorem disabled_framework_is_never_probed_witness:
  "filter tf_event (snd (build_extensions disabled_world [])) = []
   \<and> built_as (ext_name common_lib) (snd (build_extensions disabled_world []))
       = [common_extension example_options []]
   \<and> extra_compile_args (common_extension example_options []) = [''-std=c++11'', ''-fPIC'', ''-O2'']
   \<and> built_as (ext_name numpy_lib) (snd (build_extensions disabled_world []))
       = [numpy_extension example_options [] ''numpy/core/include'']
   \<and> extra_compile_args (numpy_extension example_options [] ''numpy/core/include'')
       = [''-std=c++11'', ''-fPIC'', ''-O2'']
   \<and> fst (build_extensions disabled_world []) = Inr ()"
proof -
  have h2: "env_true (environ disabled_world) ''JPEG2DCT_WITHOUT_TENSORFLOW''"
    by (simp add: world_defs env_true_def)
  have b: "build_extension disabled_world (common_extension example_options []) = None"
    "import_numpy disabled_world = None"
    "numpy_get_include disabled_world = Inr ''numpy/core/include''"
    "build_extension disabled_world (numpy_extension example_options [] ''numpy/core/include'') = None"
    by (simp_all add: world_defs)
  have o: "COMPILE_FLAGS example_options = [''-std=c++11'', ''-fPIC'', ''-O2'']"
    by (simp add: example_options_def)
  from disabled_framework_is_never_probed [OF disabled_world_options h2, of "''numpy/core/include''"] b o
  show ?thesis by simp
qed

subsection \<open>One ABI setting for the three artifacts\<close>



subsection \<open>The flags that TensorFlow declares\<close>

text \<open>
  Claim C7 as stated fails. In \<open>example_world\<close> TensorFlow reports the compile flags
  \<^verbatim>\<open>["-Iinc"]\<close> and the link flags \<^verbatim>\<open>["-Lfw", "-lfw"]\<close>, and the run succeeds.
  The core library is built with the baseline compile flags alone and with no link
  flags: none of the three strings reaches it.
\<close>

theorem declared_flags_reach_core_counterexample:
  "import_tensorflow example_world = Inr example_tf
   \<and> get_compile_flags example_tf = Inr [''-Iinc'']
   \<and> get_link_flags example_tf = Inr [''-Lfw'', ''-lfw'']
   \<and> fst (build_extensions example_world []) = Inr ()
   \<and> map extra_compile_args (built_as (ext_name common_lib) (snd (build_extensions example_world [])))
       = [[''-std=c++11'', ''-fPIC'', ''-O2'']]
   \<and> map extra_link_args (built_as (ext_name common_lib) (snd (build_extensions example_world [])))
       = [[]]"
proof -
  have w: "import_tensorflow example_world = Inr example_tf"
    "get_compile_flags example_tf = Inr [''-Iinc'']"
    "get_link_flags example_tf = Inr [''-Lfw'', ''-lfw'']"
    by (simp_all add: world_defs)
  show ?thesis
    by (simp add: w example_world_run built_as_def built_def cpp_trial_def example_options_def)
qed

text \<open>
  Claim C7, as amended. When TensorFlow (version not below \<^verbatim>\<open>'1.1.0'\<close>) reports the
  compile flags \<^verbatim>\<open>["-Iinc"]\<close> and the link flags \<^verbatim>\<open>["-Lfw", "-lfw"]\<close>, it is the
  build of the TensorFlow plugin that receives exactly these strings, appended to the
  baseline compile flags and to the baseline link flags, unmodified and in order. The
  core library receives the baseline flags only: of the TensorFlow compile flags it is
  given those that mention the ABI macro, of which there is none here, and no link flags.
\<close>

theorem declared_flags_reach_the_plugin:
  assumes "get_common_options w [] = (Inr opts, log1)"
    and "\<not> env_true (environ w) ''JPEG2DCT_WITHOUT_TENSORFLOW''"
    and "import_tensorflow w = Inr tf" "tf_version tf = Some v" "\<not> str_lt v ''1.1.0''"
    and "get_compile_flags tf = Inr [''-Iinc'']"
    and "get_link_flags tf = Inr [''-Lfw'', ''-lfw'']"
  shows "(\<forall>x\<in>set (built_as (ext_name tf_lib) (snd (build_extensions w []))).
            x = tf_extension opts [''-Iinc''] [''-Lfw'', ''-lfw''])
    \<and> BuildExtension (tf_extension opts [''-Iinc''] [''-Lfw'', ''-lfw''])
         \<in> set (snd (build_extensions w []))
    \<and> extra_compile_args (tf_extension opts [''-Iinc''] [''-Lfw'', ''-lfw''])
         = COMPILE_FLAGS opts @ [''-Iinc'']
    \<and> extra_link_args (tf_extension opts [''-Iinc''] [''-Lfw'', ''-lfw''])
         = LINK_FLAGS opts @ [''-Lfw'', ''-lfw'']
    \<and> (\<forall>x\<in>set (built_as (ext_name common_lib) (snd (build_extensions w []))).
            extra_compile_args x = COMPILE_FLAGS opts \<and> extra_link_args x = LINK_FLAGS opts)
    \<and> (build_extension w (tf_extension opts [''-Iinc''] [''-Lfw'', ''-lfw'']) = None
          \<or> \<not> env_true (environ w) ''JPEG2DCT_WITH_TENSORFLOW'' \<longrightarrow>
        built_as (ext_name common_lib) (snd (build_extensions w [])) = [common_extension opts []])"
proof -
  let ?x = "tf_extension opts [''-Iinc''] [''-Lfw'', ''-lfw'']"
  let ?l2 = "log1 @ [ImportTensorflow, ImportTensorflow, BuildExtension ?x]"
  have abi: "abi_flags_of [''-Iinc''] = []" by (simp add: abi_flags_of_def)
  have b: "build_tf_extension w opts log1 =
     ((case build_extension w ?x of None \<Rightarrow> Inr [] | Some e \<Rightarrow> Inl e), ?l2)"
    using build_tf_extension_sysconfig [OF assms(3-7), of opts log1] abi
    by (simp split: option.splits)
  from before_builds [OF assms(1)] have b1: "built log1 = []" by simp
  then have n1: "built_as n log1 = []" for n by (simp add: built_as_def)
  show ?thesis
  proof (cases "build_extension w ?x")
    case None
    with b assms(2) have t: "tf_step w opts log1 = (Inr ([], [True]), ?l2)"
      by (simp add: tf_step_def)
    note f = final_builds [OF assms(1) t]
    have "BuildExtension ?x \<in> set (snd (build_extensions w []))" using f(5) by auto
    with f(1) f(3) show ?thesis by (simp add: built_as_Cons_build n1)
  next
    case (Some e)
    show ?thesis
    proof (cases "env_true (environ w) ''JPEG2DCT_WITH_TENSORFLOW''")
      case True
      with Some b assms(1,2) have "build_extensions w [] = (Inl e, ?l2)"
        by (simp add: build_extensions_def tf_step_def)
      with Some True show ?thesis by (simp add: built_as_Cons_build n1)
    next
      case False
      with Some b assms(2) have t: "tf_step w opts log1
          = (Inr ([], [False]), ?l2 @ [Print (info_msg @ format_exc w e)])"
        by (simp add: tf_step_def)
      note f = final_builds [OF assms(1) t]
      have "BuildExtension ?x \<in> set (snd (build_extensions w []))" using f(5) by auto
      with f(1) f(3) show ?thesis by (simp add: built_as_Cons_build n1)
    qed
  qed
qed

theorem declared_flags_reach_the_plugin_witness:
  "BuildExtension (tf_extension example_options [''-Iinc''] [''-Lfw'', ''-lfw''])
       \<in> set (snd (build_extensions example_world []))
   \<and> extra_compile_args (tf_extension example_options [''-Iinc''] [''-Lfw'', ''-lfw''])
       = [''-std=c++11'', ''-fPIC'', ''-O2'', ''-Iinc'']
   \<and> extra_link_args (tf_extension example_options [''-Iinc''] [''-Lfw'', ''-lfw''])
       = [''-Lfw'', ''-lfw'']
   \<and> built_as (ext_name common_lib) (snd (build_extensions example_world []))
       = [common_extension example_options []]
   \<and> extra_compile_args (common_extension example_options []) = [''-std=c++11'', ''-fPIC'', ''-O2'']
   \<and> extra_link_args (common_extension example_options []) = []"
proof -
  have h2: "\<not> env_true (environ example_world) ''JPEG2DCT_WITHOUT_TENSORFLOW''"
    by (simp add: world_defs env_true_def)
  have h3: "import_tensorflow example_world = Inr example_tf" by (simp add: world_defs)
  have h4: "tf_version example_tf = Some ''1.15.0''" by (simp add: world_defs)
  have h5: "\<not> str_lt ''1.15.0'' ''1.1.0''" by simp
  have h6: "get_compile_flags example_tf = Inr [''-Iinc'']" by (simp add: world_defs)
  have h7: "get_link_flags example_tf = Inr [''-Lfw'', ''-lfw'']" by (simp add: world_defs)
  have h8: "build_extension example_world
      (tf_extension example_options [''-Iinc''] [''-Lfw'', ''-lfw'']) = None"
    by (simp add: world_defs)
  have o: "COMPILE_FLAGS example_options = [''-std=c++11'', ''-fPIC'', ''-O2'']"
    "LINK_FLAGS example_options = []"
    by (simp_all add: example_options_def)
  from declared_flags_reach_the_plugin [OF example_world_options h2 h3 h4 h5 h6 h7] h8 o
  show ?thesis by simp
qed

end
